theory Spec2Isabelle
  imports Complex_Main
begin

section \<open>Common values\<close>

text \<open>
  A thrown JavaScript value.  \<open>Error msg\<close> is an \<open>Error\<close> object created by the
  program itself with the given message; \<open>Thrown tag\<close> is any other value thrown
  by the runtime or a library (a rejected \<open>fetch\<close>, a JSON syntax error, ...).
\<close>

datatype error = Error string | Thrown string

text \<open>
  A JavaScript number is modelled as an exact real or \<open>NaN\<close>.  Rounding of
  IEEE doubles and the infinities are outside the model, except in the anomaly
  estimator, whose arithmetic is that of doubles (see below).
\<close>

datatype jsnum = Num real | NaN

section \<open>The temporal cache (class \<open>WeatherCache\<close>)\<close>

record 'a CacheEntry =
  data :: 'a
  timestamp :: int

text \<open>
  The private fields of the class: the \<open>Map\<close> from keys to entries and the
  time-to-live in milliseconds.  \<open>Date.now()\<close> is passed to every operation that
  reads the clock.
\<close>

record 'a WeatherCache =
  cache :: "string \<rightharpoonup> 'a CacheEntry"
  ttl :: int

definition new_WeatherCache :: "int \<Rightarrow> 'a WeatherCache" where
  "new_WeatherCache ttlMinutes = \<lparr>cache = Map.empty, ttl = ttlMinutes * 60 * 1000\<rparr>"

definition WeatherCache_get ::
  "'a WeatherCache \<Rightarrow> int \<Rightarrow> string \<Rightarrow> 'a WeatherCache \<times> 'a option" where
  "WeatherCache_get c now key =
     (case cache c key of
        None \<Rightarrow> (c, None)
      | Some entry \<Rightarrow>
          if now - timestamp entry > ttl c
          then (c\<lparr>cache := (cache c)(key := None)\<rparr>, None)
          else (c, Some (data entry)))"

definition WeatherCache_set ::
  "'a WeatherCache \<Rightarrow> int \<Rightarrow> string \<Rightarrow> 'a \<Rightarrow> 'a WeatherCache" where
  "WeatherCache_set c now key v =
     c\<lparr>cache := (cache c)(key \<mapsto> \<lparr>data = v, timestamp = now\<rparr>)\<rparr>"

definition WeatherCache_clear :: "'a WeatherCache \<Rightarrow> 'a WeatherCache" where
  "WeatherCache_clear c = c\<lparr>cache := Map.empty\<rparr>"

definition weatherCache :: "'a WeatherCache" where
  "weatherCache = new_WeatherCache 15"

section \<open>Weather snapshots (\<open>OpenMeteoResponse\<close>)\<close>

text \<open>
  The parallel arrays of a provider response.  An array element is a number; reading
  an index outside an array yields \<open>undefined\<close>, modelled as \<open>None\<close> by \<open>js_index\<close>.
\<close>

record Hourly =
  time_hourly :: "string list"
  temperature_2m :: "jsnum list"
  relative_humidity_2m :: "jsnum list"
  wind_speed_10m :: "jsnum list"
  precipitation_hourly :: "jsnum list"

record Daily =
  time_daily :: "string list"
  temperature_2m_max :: "jsnum list"
  temperature_2m_min :: "jsnum list"
  uv_index_max :: "jsnum list"
  precipitation_sum :: "jsnum list"

record OpenMeteoResponse =
  latitude :: real
  longitude :: real
  hourly :: "Hourly option"
  daily :: "Daily option"

record WeatherData =
  temperature :: real
  humidity :: real
  windSpeed :: real
  uvIndex :: real
  windChill :: real
  precipitation :: real

definition js_index :: "'a list \<Rightarrow> int \<Rightarrow> 'a option" where
  "js_index xs i = (if 0 \<le> i \<and> i < int (length xs) then Some (xs ! nat i) else None)"

text \<open>
  The expression \<open>v || d\<close> for a number or \<open>undefined\<close> \<open>v\<close> and a numeric default
  \<open>d\<close>: the default is taken when \<open>v\<close> is \<open>undefined\<close>, \<open>NaN\<close> or zero.
\<close>

fun or_default :: "jsnum option \<Rightarrow> real \<Rightarrow> real" where
  "or_default None d = d"
| "or_default (Some NaN) d = d"
| "or_default (Some (Num r)) d = (if r = 0 then d else r)"

definition processWeatherForRisk :: "OpenMeteoResponse \<Rightarrow> int \<Rightarrow> error + WeatherData" where
  "processWeatherForRisk dat dayIndex =
     (case (daily dat, hourly dat) of
        (Some dly, Some hly) \<Rightarrow>
          (let maxTemp = or_default (js_index (temperature_2m_max dly) dayIndex) 25;
               minTemp = or_default (js_index (temperature_2m_min dly) dayIndex) 15;
               uvIdx = or_default (js_index (uv_index_max dly) dayIndex) 5;
               currentHourIndex = min (dayIndex * 24) (int (length (time_hourly hly)) - 1);
               hum = or_default (js_index (relative_humidity_2m hly) currentHourIndex) 50;
               wind = or_default (js_index (wind_speed_10m hly) currentHourIndex) 10;
               precip = or_default (js_index (precipitation_sum dly) dayIndex) 0;
               chill = minTemp - (wind * 0.5)
           in Inr \<lparr>temperature = maxTemp, humidity = hum, windSpeed = wind,
                    uvIndex = uvIdx, windChill = chill, precipitation = precip\<rparr>)
      | _ \<Rightarrow> Inl (Error ''Invalid weather data structure''))"

section \<open>IEEE doubles\<close>

text \<open>
  The arithmetic of the anomaly estimator is that of IEEE 754 binary64 numbers, which
  is what decides whether its zero test fires.  A finite double is modelled by the
  real number it denotes, and each operation by the exact operation followed by
  rounding to the nearest double, a tie going to the even significand.  Overflow to an
  infinity and \<open>NaN\<close> operands are outside this model.
\<close>

definition pow2 :: "int \<Rightarrow> real" where
  "pow2 e = (if 0 \<le> e then 2 ^ nat e else 1 / 2 ^ nat (- e))"

text \<open>The nearest integer, a tie going to the even one.\<close>

definition round_half_even :: "real \<Rightarrow> int" where
  "round_half_even y =
     (let f = \<lfloor>y\<rfloor>
      in if y - of_int f < 1 / 2 then f
         else if y - of_int f > 1 / 2 then f + 1
         else if even f then f else f + 1)"

text \<open>
  The exponent of the binade of \<open>x\<close>: the \<open>e\<close> with \<open>2^e \<le> |x| < 2^(e+1)\<close>, but not
  below -1022, where the subnormal numbers begin.  The doubles of that binade are the
  multiples of \<open>2^(e-52)\<close>.
\<close>

definition binade :: "real \<Rightarrow> int" where
  "binade x = max \<lfloor>log 2 \<bar>x\<bar>\<rfloor> (- 1022)"

definition round_double :: "real \<Rightarrow> real" where
  "round_double x =
     (if x = 0 then 0
      else of_int (round_half_even (x / pow2 (binade x - 52))) * pow2 (binade x - 52))"

text \<open>
  The operations on doubles that the estimator uses: \<open>+\<close>, \<open>-\<close>, \<open>/\<close>, \<open>Math.sqrt\<close> and
  \<open>Math.pow(x, 2)\<close>, the last one as the rounded product \<open>x * x\<close>.
\<close>

definition double_add :: "real \<Rightarrow> real \<Rightarrow> real" where
  "double_add a b = round_double (a + b)"

definition double_sub :: "real \<Rightarrow> real \<Rightarrow> real" where
  "double_sub a b = round_double (a - b)"

definition double_div :: "real \<Rightarrow> real \<Rightarrow> real" where
  "double_div a b = round_double (a / b)"

definition double_sqrt :: "real \<Rightarrow> real" where
  "double_sqrt a = round_double (sqrt a)"

definition double_square :: "real \<Rightarrow> real" where
  "double_square a = round_double (a * a)"

section \<open>The anomaly estimator\<close>

text \<open>
  \<open>Array.prototype.reduce\<close> with an initial value is a left fold.  The arguments are
  doubles; the length of the array is an integer, which is a double as it is.
\<close>

definition calculateTemperatureAnomaly :: "real \<Rightarrow> real list \<Rightarrow> real" where
  "calculateTemperatureAnomaly currentTemp recentTemps =
     (if length recentTemps < 3 then 0
      else
        let mean = double_div (foldl (\<lambda>a b. double_add a b) 0 recentTemps)
                     (real (length recentTemps));
            variance = double_div
                         (foldl (\<lambda>sum t. double_add sum (double_square (double_sub t mean))) 0
                            recentTemps)
                         (real (length recentTemps));
            stdDev = double_sqrt variance
        in if stdDev = 0 then 0 else double_div (double_sub currentTemp mean) stdDev)"

text \<open>
  The population mean and the population standard deviation of a list of numbers, as
  the specification names them, in exact arithmetic.
\<close>

definition population_mean :: "real list \<Rightarrow> real" where
  "population_mean h = sum_list h / real (length h)"

definition population_stddev :: "real list \<Rightarrow> real" where
  "population_stddev h =
     sqrt (sum_list (map (\<lambda>x. (x - population_mean h) ^ 2) h) / real (length h))"

text \<open>A value on which \<open>||\<close> takes its right operand.\<close>

definition falsy :: "jsnum option \<Rightarrow> bool" where
  "falsy v = (v = None \<or> v = Some NaN \<or> v = Some (Num 0))"

section \<open>The network\<close>

text \<open>
  What \<open>fetch\<close> resolves to: whether the status is a success, the status code, and
  what \<open>json()\<close> yields (it throws on a body that does not parse).  A \<open>fetch\<close> that
  rejects (a transport failure) is \<open>Inl\<close> of the thrown value.
\<close>

record 'a Response =
  ok :: bool
  status :: nat
  json :: "error + 'a"

section \<open>The weather source client\<close>

text \<open>
  Arithmetic on JavaScript numbers: \<open>NaN\<close> is contagious.  Every divisor in the code
  is a non-zero constant; a zero divisor would give an infinity or \<open>NaN\<close>, and the
  model gives \<open>NaN\<close>.
\<close>

fun js_add :: "jsnum \<Rightarrow> jsnum \<Rightarrow> jsnum" where
  "js_add (Num a) (Num b) = Num (a + b)"
| "js_add _ _ = NaN"

fun js_mul :: "jsnum \<Rightarrow> jsnum \<Rightarrow> jsnum" where
  "js_mul (Num a) (Num b) = Num (a * b)"
| "js_mul _ _ = NaN"

fun js_div :: "jsnum \<Rightarrow> jsnum \<Rightarrow> jsnum" where
  "js_div (Num a) (Num b) = (if b = 0 then NaN else Num (a / b))"
| "js_div _ _ = NaN"

text \<open>\<open>Math.round\<close>: the nearest integer, a tie going up.\<close>

fun js_round :: "jsnum \<Rightarrow> jsnum" where
  "js_round (Num a) = Num (of_int \<lfloor>a + 1 / 2\<rfloor>)"
| "js_round NaN = NaN"

text \<open>
  \<open>Number(x.toFixed(3))\<close>: \<open>toFixed\<close> works on the absolute value, takes the nearest
  multiple of a thousandth, the larger one on a tie, and puts the sign back.
\<close>

fun js_toFixed3 :: "jsnum \<Rightarrow> jsnum" where
  "js_toFixed3 (Num a) = Num (sgn a * of_int \<lfloor>\<bar>a\<bar> * 1000 + 1 / 2\<rfloor> / 1000)"
| "js_toFixed3 NaN = NaN"

text \<open>
  The parameter object of a NASA POWER response: parameter name, then date key, to
  the value.  A value is taken as \<open>Number\<close> converts it; a missing or \<open>null\<close> value is
  \<open>None\<close>.  The response carries the object under \<open>properties.parameter\<close> or under
  \<open>parameters\<close>, or not at all.
\<close>

type_synonym ParameterObj = "string \<rightharpoonup> (string \<rightharpoonup> jsnum)"

record NasaJson =
  properties_parameter :: "ParameterObj option"
  parameters :: "ParameterObj option"

text \<open>
  The two requests of the client, as the network answers them at the time of the
  call: the primary forecast for a coordinate and a day count, and the secondary daily
  series for a coordinate and a first and last date.
\<close>

record WeatherNetwork =
  get_forecast :: "real \<Rightarrow> real \<Rightarrow> nat \<Rightarrow> error + OpenMeteoResponse Response"
  get_power :: "real \<Rightarrow> real \<Rightarrow> string \<Rightarrow> string \<Rightarrow> error + NasaJson Response"

text \<open>
  The calendar of the day of the call, for the day \<open>i\<close> days after today:
  \<open>formatYMD\<close> is the local date as YYYYMMDD, \<open>isoDate\<close> the first ten characters of
  \<open>toISOString()\<close>, and \<open>isoHour i h\<close> is \<open>toISOString()\<close> at hour \<open>h\<close> of that day.
\<close>

record Calendar =
  formatYMD :: "nat \<Rightarrow> string"
  isoDate :: "nat \<Rightarrow> string"
  isoHour :: "nat \<Rightarrow> nat \<Rightarrow> string"

text \<open>\<open>obj?.NAME?.[key]\<close> and \<open>a ?? b\<close>.\<close>

definition param_lookup :: "ParameterObj \<Rightarrow> string \<Rightarrow> string \<Rightarrow> jsnum option" where
  "param_lookup obj name key = (case obj name of None \<Rightarrow> None | Some m \<Rightarrow> m key)"

definition nullish :: "'a option \<Rightarrow> 'a option \<Rightarrow> 'a option" where
  "nullish a b = (case a of None \<Rightarrow> b | Some v \<Rightarrow> Some v)"

definition weatherCacheKey :: "(real \<Rightarrow> string) \<Rightarrow> real \<Rightarrow> real \<Rightarrow> nat \<Rightarrow> string" where
  "weatherCacheKey toStr lat lon days =
     ''weather_'' @ toStr lat @ ''_'' @ toStr lon @ ''_'' @ toStr (real days)"

text \<open>The five daily arrays built by the first loop; the wind array is local.\<close>

definition nasa_tmax :: "ParameterObj \<Rightarrow> Calendar \<Rightarrow> nat \<Rightarrow> jsnum list" where
  "nasa_tmax obj cal days =
     map (\<lambda>i. case nullish (param_lookup obj ''T2M_MAX'' (formatYMD cal i))
                            (param_lookup obj ''T2M'' (formatYMD cal i)) of
                 None \<Rightarrow> Num 25 | Some v \<Rightarrow> v) [0..<days]"

definition nasa_tmin :: "ParameterObj \<Rightarrow> Calendar \<Rightarrow> nat \<Rightarrow> jsnum list" where
  "nasa_tmin obj cal days =
     map (\<lambda>i. case nullish (param_lookup obj ''T2M_MIN'' (formatYMD cal i))
                            (param_lookup obj ''T2M'' (formatYMD cal i)) of
                 None \<Rightarrow> Num 15 | Some v \<Rightarrow> v) [0..<days]"

definition nasa_uv :: "ParameterObj \<Rightarrow> Calendar \<Rightarrow> nat \<Rightarrow> jsnum list" where
  "nasa_uv obj cal days =
     map (\<lambda>i. case param_lookup obj ''ALLSKY_SFC_UV_INDEX'' (formatYMD cal i) of
                 None \<Rightarrow> Num 5 | Some v \<Rightarrow> v) [0..<days]"

definition nasa_pr :: "ParameterObj \<Rightarrow> Calendar \<Rightarrow> nat \<Rightarrow> jsnum list" where
  "nasa_pr obj cal days =
     map (\<lambda>i. case param_lookup obj ''PRECTOT'' (formatYMD cal i) of
                 None \<Rightarrow> Num 0 | Some v \<Rightarrow> v) [0..<days]"

definition nasa_wsDaily :: "ParameterObj \<Rightarrow> Calendar \<Rightarrow> nat \<Rightarrow> jsnum list" where
  "nasa_wsDaily obj cal days =
     map (\<lambda>i. case param_lookup obj ''WS2M'' (formatYMD cal i) of
                 None \<Rightarrow> Num 0 | Some v \<Rightarrow> v) [0..<days]"

text \<open>
  The second loop: for each day and each of its 24 hours, one element is pushed to
  each hourly array.  \<open>hourly_series days f\<close> is the array whose element for day
  \<open>day\<close> and hour \<open>h\<close> is \<open>f day h\<close>.
\<close>

definition hourly_series :: "nat \<Rightarrow> (nat \<Rightarrow> nat \<Rightarrow> 'a) \<Rightarrow> 'a list" where
  "hourly_series days f = concat (map (\<lambda>day. map (\<lambda>h. f day h) [0..<24]) [0..<days])"

definition nasa_mapped :: "ParameterObj \<Rightarrow> Calendar \<Rightarrow> real \<Rightarrow> real \<Rightarrow> nat \<Rightarrow> OpenMeteoResponse" where
  "nasa_mapped obj cal lat lon days =
     (let tmax = nasa_tmax obj cal days;
          tmin = nasa_tmin obj cal days;
          uv = nasa_uv obj cal days;
          pr = nasa_pr obj cal days;
          wsDaily = nasa_wsDaily obj cal days
      in \<lparr>latitude = lat, longitude = lon,
          hourly = Some
            \<lparr>time_hourly = hourly_series days (\<lambda>day h. isoHour cal day h),
             temperature_2m = hourly_series days
               (\<lambda>day h. let tAvg = js_div (js_add (tmax ! day) (tmin ! day)) (Num 2)
                         in js_div (js_round (js_mul tAvg (Num 10))) (Num 10)),
             relative_humidity_2m = hourly_series days (\<lambda>day h. Num 50),
             wind_speed_10m = hourly_series days (\<lambda>day h. wsDaily ! day),
             precipitation_hourly = hourly_series days
               (\<lambda>day h. js_toFixed3 (js_div (pr ! day) (Num 24)))\<rparr>,
          daily = Some
            \<lparr>time_daily = map (isoDate cal) [0..<days],
             temperature_2m_max = tmax,
             temperature_2m_min = tmin,
             uv_index_max = uv,
             precipitation_sum = pr\<rparr>\<rparr>)"

text \<open>\<open>json?.properties?.parameter || json?.parameters || {}\<close>.\<close>

definition nasa_parameterObj :: "NasaJson \<Rightarrow> ParameterObj" where
  "nasa_parameterObj js =
     (case properties_parameter js of
        Some obj \<Rightarrow> obj
      | None \<Rightarrow> (case parameters js of Some obj \<Rightarrow> obj | None \<Rightarrow> Map.empty))"

definition fetchWeatherDataFromNASA ::
  "(real \<Rightarrow> string) \<Rightarrow> Calendar \<Rightarrow> WeatherNetwork \<Rightarrow> real \<Rightarrow> real \<Rightarrow> nat
     \<Rightarrow> error + OpenMeteoResponse" where
  "fetchWeatherDataFromNASA toStr cal net lat lon days =
     (case get_power net lat lon (formatYMD cal 0) (formatYMD cal (days - 1)) of
        Inl e \<Rightarrow> Inl e
      | Inr resp \<Rightarrow>
          if \<not> ok resp
          then Inl (Error (''NASA POWER API error: '' @ toStr (real (status resp))))
          else
            (case json resp of
               Inl e \<Rightarrow> Inl e
             | Inr js \<Rightarrow>
                 (let parameterObj = nasa_parameterObj js
                  in Inr (nasa_mapped parameterObj cal lat lon days))))"

text \<open>
  The body of the \<open>try\<close> block of \<open>fetchWeatherData\<close>: the request to the primary
  provider.  \<open>Inl\<close> is the value thrown inside it, which the \<open>catch\<close> receives.
\<close>

definition fetchWeatherData_try ::
  "OpenMeteoResponse WeatherCache \<Rightarrow> int \<Rightarrow> string \<Rightarrow> (real \<Rightarrow> string) \<Rightarrow> WeatherNetwork
     \<Rightarrow> real \<Rightarrow> real \<Rightarrow> nat \<Rightarrow> OpenMeteoResponse WeatherCache \<times> (error + OpenMeteoResponse)" where
  "fetchWeatherData_try c later cacheKey toStr net lat lon days =
     (case get_forecast net lat lon days of
        Inl e \<Rightarrow> (c, Inl e)
      | Inr response \<Rightarrow>
          if \<not> ok response
          then (c, Inl (Error (''Open-Meteo API error: '' @ toStr (real (status response)))))
          else
            (case json response of
               Inl e \<Rightarrow> (c, Inl e)
             | Inr dat \<Rightarrow> (WeatherCache_set c later cacheKey dat, Inr dat)))"

text \<open>
  \<open>fetchWeatherData\<close>, with the fallback to the secondary provider in its \<open>catch\<close>.
  \<open>now\<close> is the clock at the cache lookup and \<open>later\<close> the clock when a result is
  stored.
\<close>

definition fetchWeatherData ::
  "OpenMeteoResponse WeatherCache \<Rightarrow> int \<Rightarrow> int \<Rightarrow> (real \<Rightarrow> string) \<Rightarrow> Calendar \<Rightarrow> WeatherNetwork
     \<Rightarrow> real \<Rightarrow> real \<Rightarrow> nat \<Rightarrow> OpenMeteoResponse WeatherCache \<times> (error + OpenMeteoResponse)" where
  "fetchWeatherData c now later toStr cal net lat lon days =
     (let cacheKey = weatherCacheKey toStr lat lon days
      in case WeatherCache_get c now cacheKey of
           (c', Some cached) \<Rightarrow> (c', Inr cached)
         | (c', None) \<Rightarrow>
             (case fetchWeatherData_try c' later cacheKey toStr net lat lon days of
                (c'', Inr dat) \<Rightarrow> (c'', Inr dat)
              | (c'', Inl err) \<Rightarrow>
                  (case fetchWeatherDataFromNASA toStr cal net lat lon days of
                     Inr nasaData \<Rightarrow> (WeatherCache_set c'' later cacheKey nasaData, Inr nasaData)
                   | Inl nasaError \<Rightarrow> (c'', Inl err))))"

text \<open>
  ``\<open>r\<close> is \<open>x\<close> rounded to \<open>n\<close> decimals'', as the specification words it: \<open>r\<close> has at
  most \<open>n\<close> decimals and no number with \<open>n\<close> decimals is nearer to \<open>x\<close>.
\<close>

definition rounded_to_decimals :: "nat \<Rightarrow> real \<Rightarrow> real \<Rightarrow> bool" where
  "rounded_to_decimals n x r = ((\<exists>k::int. r = of_int k / 10 ^ n) \<and> \<bar>r - x\<bar> \<le> 1 / (2 * 10 ^ n))"

section \<open>The air-quality resolver\<close>

record Coordinates =
  coord_latitude :: real
  coord_longitude :: real

record OpenAQMeasurement =
  parameter :: string
  reading :: real
  lastUpdated :: string
  reading_unit :: string

record OpenAQLocation =
  station_id :: int
  station_name :: string
  coordinates :: Coordinates

text \<open>The listing's \<open>results\<close> may be missing, which the code tests for.\<close>

record OpenAQResponse =
  results :: "OpenAQLocation list option"

record OpenAQMeasurements =
  measurement_results :: "OpenAQMeasurement list"

record AirQualityData =
  pm25 :: "real option"
  pm10 :: "real option"
  no2 :: "real option"
  station :: "string option"
  distance :: "real option"

text \<open>
  The two requests of the resolver, as the network answers them at the time of the
  call: the station listing for a coordinate and a radius, and the measurements of a
  station given by its id.
\<close>

record AirQualityNetwork =
  get_locations :: "real \<Rightarrow> real \<Rightarrow> real \<Rightarrow> error + OpenAQResponse Response"
  get_measurements :: "int \<Rightarrow> error + OpenAQMeasurements Response"

text \<open>\<open>Math.atan2\<close> on reals.\<close>

definition atan2 :: "real \<Rightarrow> real \<Rightarrow> real" where
  "atan2 y x =
     (if x > 0 then arctan (y / x)
      else if x < 0 then (if y \<ge> 0 then arctan (y / x) + pi else arctan (y / x) - pi)
      else if y > 0 then pi / 2
      else if y < 0 then - pi / 2
      else 0)"

definition calculateDistance :: "real \<Rightarrow> real \<Rightarrow> real \<Rightarrow> real \<Rightarrow> real" where
  "calculateDistance lat1 lon1 lat2 lon2 =
     (let R = 6371;
          dLat = (lat2 - lat1) * pi / 180;
          dLon = (lon2 - lon1) * pi / 180;
          a = sin (dLat / 2) * sin (dLat / 2)
              + cos (lat1 * pi / 180) * cos (lat2 * pi / 180) * sin (dLon / 2) * sin (dLon / 2);
          c = 2 * atan2 (sqrt a) (sqrt (1 - a))
      in R * c)"

definition getFallbackAirQuality :: AirQualityData where
  "getFallbackAirQuality =
     \<lparr>pm25 = None, pm10 = None, no2 = None, station = None, distance = None\<rparr>"

text \<open>The distance from the query point to a station of the listing.\<close>

definition station_distance :: "real \<Rightarrow> real \<Rightarrow> OpenAQLocation \<Rightarrow> real" where
  "station_distance lat lon st =
     calculateDistance lat lon (coord_latitude (coordinates st)) (coord_longitude (coordinates st))"

text \<open>
  One round of the loop over the listing: the pair is \<open>(nearestStation, minDistance)\<close>.
\<close>

definition nearest_step ::
  "real \<Rightarrow> real \<Rightarrow> OpenAQLocation \<times> real \<Rightarrow> OpenAQLocation \<Rightarrow> OpenAQLocation \<times> real" where
  "nearest_step lat lon acc st =
     (let d = station_distance lat lon st
      in if d < snd acc then (st, d) else acc)"

text \<open>
  The selection of the nearest station: start from the first element of the listing
  and run the loop over the whole listing, the first element included.  The listing is
  not empty where this is called; on the empty listing the code has returned before.
\<close>

fun nearest_station :: "real \<Rightarrow> real \<Rightarrow> OpenAQLocation list \<Rightarrow> (OpenAQLocation \<times> real) option" where
  "nearest_station lat lon [] = None"
| "nearest_station lat lon (s0 # rest) =
     Some (foldl (nearest_step lat lon) (s0, station_distance lat lon s0) (s0 # rest))"

text \<open>One round of the loop over the measurements: the triple is \<open>(pm25, pm10, no2)\<close>.\<close>

definition pollutant_step ::
  "real option \<times> real option \<times> real option \<Rightarrow> OpenAQMeasurement
     \<Rightarrow> real option \<times> real option \<times> real option" where
  "pollutant_step acc m =
     (case acc of (p25, p10, n2) \<Rightarrow>
        if parameter m = ''pm25'' \<and> p25 = None then (Some (reading m), p10, n2)
        else if parameter m = ''pm10'' \<and> p10 = None then (p25, Some (reading m), n2)
        else if parameter m = ''no2'' \<and> n2 = None then (p25, p10, Some (reading m))
        else acc)"

definition airQualityCacheKey :: "(real \<Rightarrow> string) \<Rightarrow> real \<Rightarrow> real \<Rightarrow> real \<Rightarrow> string" where
  "airQualityCacheKey toStr lat lon radius = ''airquality_'' @ toStr lat @ ''_'' @ toStr lon"

text \<open>
  The body of the \<open>try\<close> block of \<open>fetchAirQualityData\<close>; \<open>Inl\<close> is a value thrown
  inside it.  \<open>later\<close> is the clock when the result is stored.
\<close>

definition fetchAirQualityData_try ::
  "AirQualityData WeatherCache \<Rightarrow> int \<Rightarrow> string \<Rightarrow> AirQualityNetwork \<Rightarrow> real \<Rightarrow> real \<Rightarrow> real
     \<Rightarrow> AirQualityData WeatherCache \<times> (error + AirQualityData)" where
  "fetchAirQualityData_try c later cacheKey net lat lon radius =
     (case get_locations net lat lon radius of
        Inl e \<Rightarrow> (c, Inl e)
      | Inr response \<Rightarrow>
          if \<not> ok response then (c, Inr getFallbackAirQuality)
          else
            (case json response of
               Inl e \<Rightarrow> (c, Inl e)
             | Inr dat \<Rightarrow>
                 (case results dat of
                    None \<Rightarrow> (c, Inr getFallbackAirQuality)
                  | Some stations \<Rightarrow>
                      (case nearest_station lat lon stations of
                         None \<Rightarrow> (c, Inr getFallbackAirQuality)
                       | Some (nearestStation, minDistance) \<Rightarrow>
                           (case get_measurements net (station_id nearestStation) of
                              Inl e \<Rightarrow> (c, Inl e)
                            | Inr measurementsResponse \<Rightarrow>
                                (case (if ok measurementsResponse
                                       then (case json measurementsResponse of
                                               Inl e \<Rightarrow> Inl e
                                             | Inr measurementsData \<Rightarrow>
                                                 Inr (foldl pollutant_step (None, None, None)
                                                        (measurement_results measurementsData)))
                                       else Inr (None, None, None)) of
                                   Inl e \<Rightarrow> (c, Inl e)
                                 | Inr (p25, p10, n2) \<Rightarrow>
                                     (let result = \<lparr>pm25 = p25, pm10 = p10, no2 = n2,
                                                     station = Some (station_name nearestStation),
                                                     distance = Some minDistance\<rparr>
                                      in (WeatherCache_set c later cacheKey result, Inr result))))))))"

text \<open>
  \<open>fetchAirQualityData\<close>: \<open>now\<close> is the clock at the cache lookup, \<open>toStr\<close> is the
  conversion of a number to a string in a template literal.  The result is \<open>Inr\<close> of
  the value the promise resolves to, \<open>Inl\<close> of the value it rejects with.
\<close>

definition fetchAirQualityData ::
  "AirQualityData WeatherCache \<Rightarrow> int \<Rightarrow> int \<Rightarrow> (real \<Rightarrow> string) \<Rightarrow> AirQualityNetwork
     \<Rightarrow> real \<Rightarrow> real \<Rightarrow> real \<Rightarrow> AirQualityData WeatherCache \<times> (error + AirQualityData)" where
  "fetchAirQualityData c now later toStr net lat lon radius =
     (let cacheKey = airQualityCacheKey toStr lat lon radius
      in case WeatherCache_get c now cacheKey of
           (c', Some cached) \<Rightarrow> (c', Inr cached)
         | (c', None) \<Rightarrow>
             (case fetchAirQualityData_try c' later cacheKey net lat lon radius of
                (c'', Inl e) \<Rightarrow> (c'', Inr getFallbackAirQuality)
              | (c'', Inr r) \<Rightarrow> (c'', Inr r)))"

section \<open>The batch evaluator\<close>

text \<open>
  What the evaluator reads of a computed risk, of a region and of an alert.  The risk
  engine itself is a service of the evaluator (see below).
\<close>

record RiskData =
  hsi :: real
  csi :: real
  aqri :: real
  riskScore :: real

record RiskThresholds =
  threshold_hsi :: real
  threshold_csi :: real
  threshold_aqri :: real

definition thresholds :: RiskThresholds where
  "thresholds = \<lparr>threshold_hsi = 70, threshold_csi = 60, threshold_aqri = 65\<rparr>"

text \<open>
  A feature of the region store, as \<open>JSON.parse\<close> delivers it: the store hands the
  parsed file on as it is.  The geometry and the properties of a feature may be
  \<open>null\<close>, as GeoJSON allows, and reading a member of \<open>null\<close> throws.  The coordinates
  of a geometry are the rings of the polygon (a ring is a list of positions, a
  position a list of numbers, longitude first); \<open>None\<close> is a value that cannot be
  iterated.
\<close>

record Geometry =
  geometry_type :: string
  geometry_coordinates :: "real list list list option"

record Properties =
  properties_name :: string

record Feature =
  geometry :: "Geometry option"
  properties :: "Properties option"

text \<open>The argument of \<open>storage.addAlert\<close>.\<close>

record AlertInput =
  alert_type :: string
  severity :: string
  neighborhoods :: "string list"
  message :: string

record HighRisk =
  heat :: "string list"
  cold :: "string list"
  air_quality :: "string list"

text \<open>
  The services the evaluator calls for a region, over a state \<open>'s\<close> of the world
  that they read and change (the cache, the clock, the network): the weather client,
  the air-quality resolver and the risk engine.  Each may throw.  The coordinates they
  are given are JavaScript numbers: the centroid of a polygon without vertices is
  \<open>NaN\<close>.
\<close>

record 's Services =
  svc_fetchWeatherData :: "'s \<Rightarrow> jsnum \<Rightarrow> jsnum \<Rightarrow> nat \<Rightarrow> 's \<times> (error + OpenMeteoResponse)"
  svc_fetchAirQualityData :: "'s \<Rightarrow> jsnum \<Rightarrow> jsnum \<Rightarrow> 's \<times> (error + AirQualityData)"
  svc_calculateCompleteRisk :: "'s \<Rightarrow> WeatherData \<Rightarrow> AirQualityData \<Rightarrow> error + RiskData"

text \<open>\<open>coord[i]\<close> as an operand of \<open>+=\<close>: a missing element makes the sum \<open>NaN\<close>.\<close>

definition coord_at :: "real list \<Rightarrow> int \<Rightarrow> jsnum" where
  "coord_at coord i = (case js_index coord i of None \<Rightarrow> NaN | Some x \<Rightarrow> Num x)"

definition centroid_step :: "jsnum \<times> jsnum \<times> nat \<Rightarrow> real list \<Rightarrow> jsnum \<times> jsnum \<times> nat" where
  "centroid_step acc coord =
     (case acc of (sumLat, sumLon, count) \<Rightarrow>
        (js_add sumLat (coord_at coord 1), js_add sumLon (coord_at coord 0), count + 1))"

definition getCentroid :: "real list list list option \<Rightarrow> error + jsnum \<times> jsnum" where
  "getCentroid coords =
     (case coords of
        None \<Rightarrow> Inl (Thrown ''TypeError'')
      | Some rings \<Rightarrow>
          (case foldl (\<lambda>acc ring. foldl centroid_step acc ring) (Num 0, Num 0, 0) rings of
             (sumLat, sumLon, count) \<Rightarrow>
               Inr (js_div sumLon (Num (real count)), js_div sumLat (Num (real count)))))"

text \<open>
  What the loop reads of a feature before its \<open>try\<close> block: \<open>Inr None\<close> for a feature
  that is skipped, \<open>Inr (Some (lon, lat, name))\<close> for a polygon, and \<open>Inl\<close> the value
  thrown by a read; nothing in the loop catches it.
\<close>

definition read_feature :: "Feature \<Rightarrow> error + (jsnum \<times> jsnum \<times> string) option" where
  "read_feature feature =
     (case geometry feature of
        None \<Rightarrow> Inl (Thrown ''TypeError'')
      | Some g \<Rightarrow>
          if geometry_type g \<noteq> ''Polygon'' then Inr None
          else
            (case getCentroid (geometry_coordinates g) of
               Inl e \<Rightarrow> Inl e
             | Inr (lon, lat) \<Rightarrow>
                 (case properties feature of
                    None \<Rightarrow> Inl (Thrown ''TypeError'')
                  | Some props \<Rightarrow> Inr (Some (lon, lat, properties_name props)))))"

text \<open>The body of the \<open>try\<close> block for one region; \<open>Inl\<close> is a value thrown in it.\<close>

definition processRegion :: "'s Services \<Rightarrow> 's \<Rightarrow> jsnum \<Rightarrow> jsnum \<Rightarrow> 's \<times> (error + RiskData)" where
  "processRegion svc s lat lon =
     (case svc_fetchWeatherData svc s lat lon 7 of
        (s1, Inl e) \<Rightarrow> (s1, Inl e)
      | (s1, Inr weatherData) \<Rightarrow>
          (case processWeatherForRisk weatherData 0 of
             Inl e \<Rightarrow> (s1, Inl e)
           | Inr weather \<Rightarrow>
               (case svc_fetchAirQualityData svc s1 lat lon of
                  (s2, Inl e) \<Rightarrow> (s2, Inl e)
                | (s2, Inr airQuality) \<Rightarrow>
                    (case svc_calculateCompleteRisk svc s2 weather airQuality of
                       Inl e \<Rightarrow> (s2, Inl e)
                     | Inr riskData \<Rightarrow> (s2, Inr riskData)))))"

text \<open>The three tests on a computed risk, each pushing the name to its list.\<close>

definition push_high_risk :: "HighRisk \<Rightarrow> string \<Rightarrow> RiskData \<Rightarrow> HighRisk" where
  "push_high_risk hr name riskData =
     (let hr1 = (if hsi riskData \<ge> threshold_hsi thresholds
                 then hr\<lparr>heat := heat hr @ [name]\<rparr> else hr);
          hr2 = (if csi riskData \<ge> threshold_csi thresholds
                 then hr1\<lparr>cold := cold hr1 @ [name]\<rparr> else hr1);
          hr3 = (if aqri riskData \<ge> threshold_aqri thresholds
                 then hr2\<lparr>air_quality := air_quality hr2 @ [name]\<rparr> else hr2)
      in hr3)"

text \<open>
  The loop over the features.  A throw inside the \<open>try\<close> block of a region is caught
  there and the loop goes on; a throw by a read before it leaves the loop.
\<close>

fun region_loop :: "'s Services \<Rightarrow> 's \<Rightarrow> HighRisk \<Rightarrow> Feature list \<Rightarrow> 's \<times> (error + HighRisk)" where
  "region_loop svc s hr [] = (s, Inr hr)"
| "region_loop svc s hr (feature # rest) =
     (case read_feature feature of
        Inl e \<Rightarrow> (s, Inl e)
      | Inr None \<Rightarrow> region_loop svc s hr rest
      | Inr (Some (lon, lat, name)) \<Rightarrow>
          (case processRegion svc s lat lon of
             (s', Inr riskData) \<Rightarrow> region_loop svc s' (push_high_risk hr name riskData) rest
           | (s', Inl e) \<Rightarrow> region_loop svc s' hr rest))"

definition severity_of :: "string list \<Rightarrow> string" where
  "severity_of names = (if length names \<ge> 3 then ''extreme'' else ''high'')"

text \<open>The three alert decisions after the loop, in their order.\<close>

definition alerts_of :: "(real \<Rightarrow> string) \<Rightarrow> HighRisk \<Rightarrow> AlertInput list" where
  "alerts_of toStr hr =
     (if length (heat hr) > 0
      then [\<lparr>alert_type = ''heat'', severity = severity_of (heat hr), neighborhoods = heat hr,
             message = ''High heat stress detected in '' @ toStr (real (length (heat hr)))
               @ '' neighborhood(s). Heat Stress Index above ''
               @ toStr (threshold_hsi thresholds) @ ''.''\<rparr>]
      else [])
     @ (if length (cold hr) > 0
        then [\<lparr>alert_type = ''cold'', severity = severity_of (cold hr), neighborhoods = cold hr,
               message = ''High cold stress detected in '' @ toStr (real (length (cold hr)))
                 @ '' neighborhood(s). Cold Stress Index above ''
                 @ toStr (threshold_csi thresholds) @ ''.''\<rparr>]
        else [])
     @ (if length (air_quality hr) > 0
        then [\<lparr>alert_type = ''air_quality'', severity = severity_of (air_quality hr),
               neighborhoods = air_quality hr,
               message = ''Poor air quality detected in '' @ toStr (real (length (air_quality hr)))
                 @ '' neighborhood(s). Air Quality Risk Index above ''
                 @ toStr (threshold_aqri thresholds) @ ''.''\<rparr>]
        else [])"

text \<open>
  \<open>calculateDailyRisks\<close> on the features of the region store: the state of the world
  after the run and the alerts handed to \<open>storage.addAlert\<close>, in order.  A throw that
  leaves the loop is caught by the outer \<open>catch\<close>, which logs it: the run ends with no
  alert.
\<close>

definition calculateDailyRisks ::
  "(real \<Rightarrow> string) \<Rightarrow> 's Services \<Rightarrow> 's \<Rightarrow> Feature list \<Rightarrow> 's \<times> AlertInput list" where
  "calculateDailyRisks toStr svc s features =
     (case region_loop svc s \<lparr>heat = [], cold = [], air_quality = []\<rparr> features of
        (s', Inr highRiskNeighborhoods) \<Rightarrow> (s', alerts_of toStr highRiskNeighborhoods)
      | (s', Inl error) \<Rightarrow> (s', []))"

text \<open>
  A feature that the loop can read: it has a geometry and, if that is a polygon,
  coordinates that can be iterated and properties.
\<close>

definition readable :: "Feature \<Rightarrow> bool" where
  "readable feature =
     (case geometry feature of
        None \<Rightarrow> False
      | Some g \<Rightarrow>
          if geometry_type g = ''Polygon''
          then geometry_coordinates g \<noteq> None \<and> properties feature \<noteq> None
          else True)"

text \<open>
  The outcomes of a run, region by region: for every polygon feature, in order, its
  name and what its processing gave, each region starting in the state the one before
  it left.  The outcomes end at a feature that cannot be read.
\<close>

fun region_outcomes :: "'s Services \<Rightarrow> 's \<Rightarrow> Feature list \<Rightarrow> (string \<times> (error + RiskData)) list" where
  "region_outcomes svc s [] = []"
| "region_outcomes svc s (f # fs) =
     (case read_feature f of
        Inl e \<Rightarrow> []
      | Inr None \<Rightarrow> region_outcomes svc s fs
      | Inr (Some (lon, lat, name)) \<Rightarrow>
          (name, snd (processRegion svc s lat lon))
          # region_outcomes svc (fst (processRegion svc s lat lon)) fs)"

text \<open>
  The names of the regions whose sub-index, read by \<open>idx\<close>, met or exceeded the
  threshold \<open>th\<close>, and the alert candidate of an index.
\<close>

definition affected :: "(RiskData \<Rightarrow> real) \<Rightarrow> real \<Rightarrow> (string \<times> (error + RiskData)) list \<Rightarrow> string list" where
  "affected idx th outcomes =
     map fst (filter (\<lambda>(name, r). case r of Inl e \<Rightarrow> False | Inr d \<Rightarrow> idx d \<ge> th) outcomes)"

definition candidate :: "string \<Rightarrow> string list \<Rightarrow> (string \<times> string \<times> string list) list" where
  "candidate kind names =
     (if names = [] then []
      else [(kind, if length names \<ge> 3 then ''extreme'' else ''high'', names)])"

section \<open>Data for the examples\<close>

text \<open>
  The strings a template literal gives for the numbers the examples use.
\<close>

definition example_toStr :: "real \<Rightarrow> string" where
  "example_toStr x =
     (if x = 45 then ''45'' else if x = - 75 then ''-75'' else if x = 7 then ''7''
      else if x = 1 then ''1'' else if x = 2 then ''2'' else if x = 3 then ''3''
      else if x = 60 then ''60'' else if x = 65 then ''65'' else if x = 70 then ''70''
      else if x = 503 then ''503'' else ''0'')"

text \<open>A station on the meridian of the point (0, 0), \<open>km\<close> kilometres to the north.\<close>

definition station_north :: "int \<Rightarrow> string \<Rightarrow> real \<Rightarrow> OpenAQLocation" where
  "station_north i n km =
     \<lparr>station_id = i, station_name = n,
      coordinates = \<lparr>coord_latitude = km * 180 / (6371 * pi), coord_longitude = 0\<rparr>\<rparr>"


text \<open>A listing of one station; the measurements request answers with status 500.\<close>

definition failing_measurements_network :: AirQualityNetwork where
  "failing_measurements_network =
     \<lparr>get_locations = (\<lambda>lat lon radius.
        Inr \<lparr>ok = True, status = 200,
             json = Inr \<lparr>results = Some [\<lparr>station_id = 1, station_name = ''Ottawa'',
                coordinates = \<lparr>coord_latitude = 45, coord_longitude = - 75\<rparr>\<rparr>]\<rparr>\<rparr>),
      get_measurements = (\<lambda>i. Inr \<lparr>ok = False, status = 500, json = Inl (Thrown ''SyntaxError'')\<rparr>)\<rparr>"

text \<open>Every request is rejected.\<close>

definition unreachable_network :: AirQualityNetwork where
  "unreachable_network =
     \<lparr>get_locations = (\<lambda>lat lon radius. Inl (Thrown ''TypeError: fetch failed'')),
      get_measurements = (\<lambda>i. Inl (Thrown ''TypeError: fetch failed''))\<rparr>"

text \<open>One station at 3 km, listed only when the radius reaches it.\<close>

definition radius_network :: AirQualityNetwork where
  "radius_network =
     \<lparr>get_locations = (\<lambda>lat lon radius.
        Inr \<lparr>ok = True, status = 200,
             json = Inr \<lparr>results = (if radius < 3000 then Some [] else Some [station_north 2 ''B'' 3])\<rparr>\<rparr>),
      get_measurements = (\<lambda>i. Inr \<lparr>ok = True, status = 200, json = Inr \<lparr>measurement_results = []\<rparr>\<rparr>)\<rparr>"

text \<open>A calendar whose first day is 1 January 2024.\<close>

definition example_calendar :: Calendar where
  "example_calendar =
     \<lparr>formatYMD = (\<lambda>i. if i = 0 then ''20240101'' else ''20240102''),
      isoDate = (\<lambda>i. if i = 0 then ''2024-01-01'' else ''2024-01-02''),
      isoHour = (\<lambda>i h. if i = 0 then ''2024-01-01T05:00:00.000Z'' else ''2024-01-02T05:00:00.000Z'')\<rparr>"

text \<open>The primary provider answers 503 and the request to the secondary one is rejected.\<close>

definition both_fail_network :: WeatherNetwork where
  "both_fail_network =
     \<lparr>get_forecast = (\<lambda>lat lon days. Inr \<lparr>ok = False, status = 503, json = Inl (Thrown ''SyntaxError'')\<rparr>),
      get_power = (\<lambda>lat lon start end. Inl (Thrown ''TypeError: fetch failed''))\<rparr>"

text \<open>The parameters of a secondary response that has values for the first day only.\<close>

definition example_parameterObj :: ParameterObj where
  "example_parameterObj =
     [''T2M_MAX'' \<mapsto> [''20240101'' \<mapsto> Num (1004 / 100)],
      ''T2M_MIN'' \<mapsto> [''20240101'' \<mapsto> Num 5],
      ''PRECTOT'' \<mapsto> [''20240101'' \<mapsto> Num 1],
      ''WS2M'' \<mapsto> [''20240101'' \<mapsto> Num 12]]"

text \<open>The primary request is rejected; the secondary provider answers.\<close>

definition fallback_network :: WeatherNetwork where
  "fallback_network =
     \<lparr>get_forecast = (\<lambda>lat lon days. Inl (Thrown ''TypeError: fetch failed'')),
      get_power = (\<lambda>lat lon start end.
         Inr \<lparr>ok = True, status = 200,
              json = Inr \<lparr>properties_parameter = Some example_parameterObj, parameters = None\<rparr>\<rparr>)\<rparr>"

text \<open>
  Services for the examples: the weather of a point has its latitude as the day's max
  temperature, except that the request for latitude 0 is rejected; there is no
  air-quality data; and the heat index of the risk engine is the max temperature.
\<close>

definition toy_services :: "unit Services" where
  "toy_services =
     \<lparr>svc_fetchWeatherData = (\<lambda>s lat lon days.
        (s, if lat = Num 0 then Inl (Thrown ''TypeError: fetch failed'')
            else Inr \<lparr>latitude = 0, longitude = 0,
                      hourly = Some \<lparr>time_hourly = [], temperature_2m = [],
                                      relative_humidity_2m = [], wind_speed_10m = [],
                                      precipitation_hourly = []\<rparr>,
                      daily = Some \<lparr>time_daily = [], temperature_2m_max = [lat],
                                     temperature_2m_min = [], uv_index_max = [],
                                     precipitation_sum = []\<rparr>\<rparr>)),
      svc_fetchAirQualityData = (\<lambda>s lat lon. (s, Inr getFallbackAirQuality)),
      svc_calculateCompleteRisk = (\<lambda>s weather airQuality.
        Inr \<lparr>hsi = temperature weather, csi = 0, aqri = 0, riskScore = 0\<rparr>)\<rparr>"

text \<open>A region whose two vertices lie on the given latitude, around longitude 0.\<close>

definition region_at :: "string \<Rightarrow> real \<Rightarrow> Feature" where
  "region_at name lat =
     \<lparr>geometry = Some \<lparr>geometry_type = ''Polygon'',
                        geometry_coordinates = Some [[[- 1, lat], [1, lat]]]\<rparr>,
      properties = Some \<lparr>properties_name = name\<rparr>\<rparr>"


section \<open>Properties of the cache\<close>

lemma ttl_weatherCache: "ttl weatherCache = 900000"
  by (simp add: weatherCache_def new_WeatherCache_def)

lemma ttl_WeatherCache_set: "ttl (WeatherCache_set c now k v) = ttl c"
  by (simp add: WeatherCache_set_def)

lemma ttl_WeatherCache_get: "ttl (fst (WeatherCache_get c now k)) = ttl c"
  by (simp add: WeatherCache_get_def split: option.splits)

lemma ttl_WeatherCache_clear: "ttl (WeatherCache_clear c) = ttl c"
  by (simp add: WeatherCache_clear_def)

text \<open>
  Claim C6.  For a cache whose time-to-live is the fixed 15 minutes (900000 ms):
  a \<open>set\<close> followed by a \<open>get\<close> of the same key no later than the time-to-live (in
  particular immediately, at the same clock reading) returns the stored value and
  leaves the cache as it is; a \<open>get\<close> that finds an entry older than the time-to-live
  returns absent and deletes exactly that entry, so that further \<open>get\<close>s stay absent
  until a new \<open>set\<close>, after which the new value is returned; and \<open>set\<close> replaces
  whatever entry the key had and touches no other key.
\<close>

theorem cache_roundtrip_expiry_overwrite:
  assumes "ttl c = 900000"
  shows "WeatherCache_get (WeatherCache_set c now k v) now k = (WeatherCache_set c now k v, Some v)
    \<and> (now' - now \<le> 900000 \<longrightarrow>
         WeatherCache_get (WeatherCache_set c now k v) now' k = (WeatherCache_set c now k v, Some v))
    \<and> (\<forall>e. cache c k = Some e \<and> now - timestamp e > 900000 \<longrightarrow>
         snd (WeatherCache_get c now k) = None
         \<and> cache (fst (WeatherCache_get c now k)) = (cache c)(k := None)
         \<and> snd (WeatherCache_get (fst (WeatherCache_get c now k)) now' k) = None
         \<and> snd (WeatherCache_get (WeatherCache_set (fst (WeatherCache_get c now k)) now k v) now k) = Some v)
    \<and> cache (WeatherCache_set c now k v) = (cache c)(k \<mapsto> \<lparr>data = v, timestamp = now\<rparr>)"
  using assms by (auto simp: WeatherCache_get_def WeatherCache_set_def)

theorem cache_roundtrip_expiry_overwrite_witness:
  "ttl (weatherCache :: nat WeatherCache) = 900000
   \<and> WeatherCache_get (WeatherCache_set weatherCache 1000 ''weather_1_2_7'' (42::nat)) 1000 ''weather_1_2_7''
       = (WeatherCache_set weatherCache 1000 ''weather_1_2_7'' 42, Some 42)
   \<and> (600000 - 1000 \<le> (900000::int)
       \<and> snd (WeatherCache_get (WeatherCache_set weatherCache 1000 ''weather_1_2_7'' (42::nat)) 600000 ''weather_1_2_7'')
           = Some 42)
   \<and> (cache (WeatherCache_set weatherCache 1000 ''weather_1_2_7'' (42::nat)) ''weather_1_2_7''
         = Some \<lparr>data = 42, timestamp = 1000\<rparr>
       \<and> 901001 - timestamp \<lparr>data = 42::nat, timestamp = 1000\<rparr> > 900000
       \<and> snd (WeatherCache_get (WeatherCache_set weatherCache 1000 ''weather_1_2_7'' (42::nat)) 901001 ''weather_1_2_7'')
           = None
       \<and> cache (fst (WeatherCache_get (WeatherCache_set weatherCache 1000 ''weather_1_2_7'' (42::nat)) 901001 ''weather_1_2_7''))
           ''weather_1_2_7'' = None)"
proof -
  let ?c0 = "weatherCache :: nat WeatherCache"
  let ?c1 = "WeatherCache_set ?c0 1000 ''weather_1_2_7'' (42::nat)"
  have t0: "ttl ?c0 = 900000" by (rule ttl_weatherCache)
  have t1: "ttl ?c1 = 900000" by (simp add: ttl_WeatherCache_set ttl_weatherCache)
  have e1: "cache ?c1 ''weather_1_2_7'' = Some \<lparr>data = 42, timestamp = 1000\<rparr>"
    by (simp add: WeatherCache_set_def)
  note a = cache_roundtrip_expiry_overwrite [OF t0, of 1000 "''weather_1_2_7''" 42 600000]
  note b = cache_roundtrip_expiry_overwrite [OF t1, of 901001 "''weather_1_2_7''" 0 0]
  from a b e1 t0 show ?thesis by simp
qed

section \<open>Properties of the anomaly estimator\<close>

lemma sum_list_all_equal:
  "\<forall>x\<in>set xs. x = a \<Longrightarrow> sum_list xs = real (length xs) * (a :: real)"
  by (induction xs) (simp_all add: algebra_simps)

lemma population_stddev_all_equal:
  assumes "\<forall>x\<in>set h. x = a"
  shows "population_stddev h = 0"
proof (cases "h = []")
  case True
  then show ?thesis by (simp add: population_stddev_def)
next
  case False
  then have "population_mean h = a"
    using assms by (simp add: population_mean_def sum_list_all_equal)
  then have "\<forall>y\<in>set (map (\<lambda>x. (x - population_mean h) ^ 2) h). y = 0"
    using assms by simp
  then have "sum_list (map (\<lambda>x. (x - population_mean h) ^ 2) h) = 0"
    using sum_list_all_equal [of "map (\<lambda>x. (x - population_mean h) ^ 2) h" 0] by simp
  then show ?thesis by (simp add: population_stddev_def)
qed

subsection \<open>Rounding\<close>

lemma pow2_powr: "pow2 e = 2 powr (real_of_int e)"
  by (simp add: pow2_def powr_real_of_int inverse_eq_divide)

lemma binade_eqI:
  assumes "- 1022 \<le> e" and "pow2 e \<le> \<bar>x\<bar>" and "\<bar>x\<bar> < pow2 (e + 1)"
  shows "binade x = e"
proof -
  have "0 < pow2 e" by (simp add: pow2_def)
  with assms(2) have pos: "0 < \<bar>x\<bar>" by linarith
  have "\<lfloor>log 2 \<bar>x\<bar>\<rfloor> = e"
    using assms(2,3) pos by (subst floor_log_eq_powr_iff) (simp_all add: pow2_powr)
  with assms(1) show ?thesis by (simp add: binade_def)
qed

text \<open>How a rounding is computed: find the binade, then round the scaled number.\<close>

lemma round_double_eqI:
  assumes "- 1022 \<le> e" and "pow2 e \<le> \<bar>x\<bar>" and "\<bar>x\<bar> < pow2 (e + 1)"
    and "round_half_even (x / pow2 (e - 52)) = m"
  shows "round_double x = of_int m * pow2 (e - 52)"
proof -
  have "0 < pow2 e" by (simp add: pow2_def)
  with assms(2) have "x \<noteq> 0" by auto
  moreover have "binade x = e" using assms(1-3) by (rule binade_eqI)
  ultimately show ?thesis using assms(4) by (simp add: round_double_def)
qed

lemma round_half_even_close: "\<bar>of_int (round_half_even y) - y\<bar> \<le> 1 / 2"
  unfolding round_half_even_def Let_def by (auto split: if_splits)

text \<open>Rounding moves a number by at most half the spacing of its binade.\<close>

lemma round_double_close: "\<bar>round_double x - x\<bar> \<le> pow2 (binade x - 52) / 2"
proof (cases "x = 0")
  case True
  then show ?thesis by (simp add: round_double_def pow2_def)
next
  case False
  define u where "u = pow2 (binade x - 52)"
  have u: "0 < u" by (simp add: u_def pow2_def)
  have "\<bar>of_int (round_half_even (x / u)) - x / u\<bar> \<le> 1 / 2" by (rule round_half_even_close)
  then have "\<bar>of_int (round_half_even (x / u)) - x / u\<bar> * u \<le> 1 / 2 * u"
    using u by (intro mult_right_mono) auto
  moreover have "\<bar>of_int (round_half_even (x / u)) - x / u\<bar> * u
      = \<bar>of_int (round_half_even (x / u)) * u - x\<bar>"
  proof -
    have "of_int (round_half_even (x / u)) * u - x = (of_int (round_half_even (x / u)) - x / u) * u"
      using u by (simp add: field_simps)
    then show ?thesis using u by (simp only: abs_mult abs_of_pos)
  qed
  ultimately show ?thesis using False by (simp add: round_double_def u_def)
qed

lemma round_double_0: "round_double 0 = 0"
  by (simp add: round_double_def)

subsection \<open>The doubles of the literals 0.1 and 0.3\<close>

lemma double_tenth: "round_double (1 / 10) = 7205759403792794 / 2 ^ 56"
  by (subst round_double_eqI [where e = "- 4" and m = 7205759403792794])
     (simp_all add: pow2_def round_half_even_def)

lemma double_three_tenths: "round_double (3 / 10) = 5404319552844595 / 2 ^ 54"
  by (subst round_double_eqI [where e = "- 2" and m = 5404319552844595])
     (simp_all add: pow2_def round_half_even_def)

subsection \<open>The estimator on three times 0.1, step by step\<close>

text \<open>The sum 0.1 + 0.1 + 0.1 is rounded up, and so is its third: the mean is above 0.1.\<close>

lemma sum_step1: "double_add 0 (7205759403792794 / 2 ^ 56) = 7205759403792794 / 2 ^ 56"
  unfolding double_add_def
  by (subst round_double_eqI [where e = "- 4" and m = 7205759403792794])
     (simp_all add: pow2_def round_half_even_def)

lemma sum_step2:
  "double_add (7205759403792794 / 2 ^ 56) (7205759403792794 / 2 ^ 56) = 7205759403792794 / 2 ^ 55"
  unfolding double_add_def
  by (subst round_double_eqI [where e = "- 3" and m = 7205759403792794])
     (simp_all add: pow2_def round_half_even_def)

lemma sum_step3:
  "double_add (7205759403792794 / 2 ^ 55) (7205759403792794 / 2 ^ 56) = 5404319552844596 / 2 ^ 54"
  unfolding double_add_def
  by (subst round_double_eqI [where e = "- 2" and m = 5404319552844596])
     (simp_all add: pow2_def round_half_even_def)

lemma mean_step: "double_div (5404319552844596 / 2 ^ 54) 3 = 7205759403792795 / 2 ^ 56"
  unfolding double_div_def
  by (subst round_double_eqI [where e = "- 4" and m = 7205759403792795])
     (simp_all add: pow2_def round_half_even_def)

text \<open>Each element is one unit in the last place below the mean.\<close>

lemma dev_step:
  "double_sub (7205759403792794 / 2 ^ 56) (7205759403792795 / 2 ^ 56) = - (1 / 2 ^ 56)"
  unfolding double_sub_def
  by (subst round_double_eqI [where e = "- 56" and m = "- (2 ^ 52)"])
     (simp_all add: pow2_def round_half_even_def)

lemma square_step: "double_square (- (1 / 2 ^ 56)) = 1 / 2 ^ 112"
  unfolding double_square_def
  by (subst round_double_eqI [where e = "- 112" and m = "2 ^ 52"])
     (simp_all add: pow2_def round_half_even_def)

lemma var_step1: "double_add 0 (1 / 2 ^ 112) = 1 / 2 ^ 112"
  unfolding double_add_def
  by (subst round_double_eqI [where e = "- 112" and m = "2 ^ 52"])
     (simp_all add: pow2_def round_half_even_def)

lemma var_step2: "double_add (1 / 2 ^ 112) (1 / 2 ^ 112) = 1 / 2 ^ 111"
  unfolding double_add_def
  by (subst round_double_eqI [where e = "- 111" and m = "2 ^ 52"])
     (simp_all add: pow2_def round_half_even_def)

lemma var_step3: "double_add (1 / 2 ^ 111) (1 / 2 ^ 112) = 3 / 2 ^ 112"
  unfolding double_add_def
  by (subst round_double_eqI [where e = "- 111" and m = "3 * 2 ^ 51"])
     (simp_all add: pow2_def round_half_even_def)

lemma var_step4: "double_div (3 / 2 ^ 112) 3 = 1 / 2 ^ 112"
  unfolding double_div_def
  by (subst round_double_eqI [where e = "- 112" and m = "2 ^ 52"])
     (simp_all add: pow2_def round_half_even_def)

text \<open>The standard deviation is that one unit, not 0.\<close>

lemma sqrt_step: "double_sqrt (1 / 2 ^ 112) = 1 / 2 ^ 56"
proof -
  have "((2::real) ^ 56) ^ 2 = 2 ^ 112" by (simp only: power_mult [symmetric]) simp
  then have e: "(1 / 2 ^ 112 :: real) = (1 / 2 ^ 56) ^ 2" by (simp only: power_divide power_one)
  have "sqrt (1 / 2 ^ 112) = \<bar>1 / 2 ^ 56 :: real\<bar>" unfolding e by (rule real_sqrt_abs)
  then have s: "sqrt (1 / 2 ^ 112) = 1 / 2 ^ 56" by simp
  show ?thesis
    unfolding double_sqrt_def s
    by (subst round_double_eqI [where e = "- 56" and m = "2 ^ 52"])
       (simp_all add: pow2_def round_half_even_def)
qed

lemma num_step:
  "double_sub (5404319552844595 / 2 ^ 54) (7205759403792795 / 2 ^ 56) = 7205759403792792 / 2 ^ 55"
  unfolding double_sub_def
  by (subst round_double_eqI [where e = "- 3" and m = 7205759403792792])
     (simp_all add: pow2_def round_half_even_def)

lemma quot_step: "double_div (7205759403792792 / 2 ^ 55) (1 / 2 ^ 56) = 14411518807585584"
  unfolding double_div_def
  by (subst round_double_eqI [where e = 53 and m = 7205759403792792])
     (simp_all add: pow2_def round_half_even_def)

lemma anomaly_of_tenths:
  "calculateTemperatureAnomaly (5404319552844595 / 2 ^ 54)
     [7205759403792794 / 2 ^ 56, 7205759403792794 / 2 ^ 56, 7205759403792794 / 2 ^ 56]
   = 14411518807585584"
proof -
  let ?a = "7205759403792794 / 2 ^ 56 :: real"
  let ?h = "[?a, ?a, ?a]"
  have n: "real (length ?h) = 3" and l: "\<not> length ?h < 3" by simp_all
  have mean: "double_div (foldl (\<lambda>a b. double_add a b) 0 ?h) 3 = 7205759403792795 / 2 ^ 56"
    by (simp only: foldl_Cons foldl_Nil sum_step1 sum_step2 sum_step3 mean_step)
  have var: "double_div
      (foldl (\<lambda>sum t. double_add sum (double_square (double_sub t (7205759403792795 / 2 ^ 56)))) 0 ?h) 3
      = 1 / 2 ^ 112"
    by (simp only: foldl_Cons foldl_Nil dev_step square_step var_step1 var_step2 var_step3 var_step4)
  have nz: "(1 / 2 ^ 56 :: real) \<noteq> 0" by simp
  show ?thesis
    unfolding calculateTemperatureAnomaly_def Let_def n mean var sqrt_step num_step quot_step
    using l nz by (simp only: if_False)
qed

subsection \<open>The estimator on three times 20\<close>

lemma round_double_20: "round_double 20 = 20"
  by (subst round_double_eqI [where e = 4 and m = "20 * 2 ^ 48"])
     (simp_all add: pow2_def round_half_even_def)

lemma round_double_40: "round_double 40 = 40"
  by (subst round_double_eqI [where e = 5 and m = "40 * 2 ^ 47"])
     (simp_all add: pow2_def round_half_even_def)

lemma round_double_60: "round_double 60 = 60"
  by (subst round_double_eqI [where e = 5 and m = "60 * 2 ^ 47"])
     (simp_all add: pow2_def round_half_even_def)

lemma anomaly_of_twenties: "calculateTemperatureAnomaly 25 [20, 20, 20] = 0"
  by (simp add: calculateTemperatureAnomaly_def Let_def double_add_def double_sub_def double_div_def
        double_square_def double_sqrt_def round_double_0 round_double_20 round_double_40
        round_double_60)

text \<open>
  Claim C2 at its failing input.  The history of three times the double 0.1 has
  population standard deviation 0, all its values being identical, and the claim says
  that the estimator returns 0 for it.  In double arithmetic the mean of the history
  comes out one unit in the last place above 0.1, the computed standard deviation is
  that unit, \<open>2^-56\<close>, and not 0, the zero test does not fire, and for the current
  temperature 0.3 the estimator returns 14411518807585584.  On the history of three
  times 20 with the current temperature 25, where no operation rounds, it returns 0.
\<close>

theorem calculateTemperatureAnomaly_identical_history_not_zero:
  "population_stddev [round_double (1 / 10), round_double (1 / 10), round_double (1 / 10)] = 0
   \<and> calculateTemperatureAnomaly (round_double (3 / 10))
        [round_double (1 / 10), round_double (1 / 10), round_double (1 / 10)]
       = 14411518807585584
   \<and> calculateTemperatureAnomaly 25 [20, 20, 20] = 0"
proof (intro conjI)
  show "population_stddev [round_double (1 / 10), round_double (1 / 10), round_double (1 / 10)] = 0"
    by (rule population_stddev_all_equal [of _ "round_double (1 / 10)"]) simp
next
  show "calculateTemperatureAnomaly (round_double (3 / 10))
        [round_double (1 / 10), round_double (1 / 10), round_double (1 / 10)]
       = 14411518807585584"
    unfolding double_tenth double_three_tenths by (rule anomaly_of_tenths)
next
  show "calculateTemperatureAnomaly 25 [20, 20, 20] = 0"
    by (rule anomaly_of_twenties)
qed

section \<open>Properties of \<open>processWeatherForRisk\<close>\<close>

lemma or_default_falsy: "falsy v \<Longrightarrow> or_default v d = d"
  by (auto simp: falsy_def)

text \<open>
  Claim C10.  On a snapshot with both sections, \<open>processWeatherForRisk\<close> returns a
  result, and each of its six fields takes its default (max temperature 25, min
  temperature 15, UV 5, humidity 50, wind speed 10, precipitation 0) whenever the
  value read from the snapshot is absent, \<open>NaN\<close> or exactly 0, not only when it is
  absent.  The min temperature shows in the result through the wind chill, which is
  then computed from 15.  In particular a min temperature of exactly 0 gives the
  wind chill \<open>15 - windSpeed * 0.5\<close> and an observed humidity of 0 gives humidity 50.
\<close>

theorem processWeatherForRisk_defaults_on_falsy:
  assumes "daily dat = Some dly" and "hourly dat = Some hly"
    and "hi = min (i * 24) (int (length (time_hourly hly)) - 1)"
  shows "\<exists>w. processWeatherForRisk dat i = Inr w
    \<and> (falsy (js_index (temperature_2m_max dly) i) \<longrightarrow> temperature w = 25)
    \<and> (falsy (js_index (temperature_2m_min dly) i) \<longrightarrow> windChill w = 15 - windSpeed w * 0.5)
    \<and> (falsy (js_index (uv_index_max dly) i) \<longrightarrow> uvIndex w = 5)
    \<and> (falsy (js_index (relative_humidity_2m hly) hi) \<longrightarrow> humidity w = 50)
    \<and> (falsy (js_index (wind_speed_10m hly) hi) \<longrightarrow> windSpeed w = 10)
    \<and> (falsy (js_index (precipitation_sum dly) i) \<longrightarrow> precipitation w = 0)
    \<and> (js_index (temperature_2m_min dly) i = Some (Num 0) \<longrightarrow> windChill w = 15 - windSpeed w * 0.5)
    \<and> (js_index (relative_humidity_2m hly) hi = Some (Num 0) \<longrightarrow> humidity w = 50)"
  using assms
  by (simp add: processWeatherForRisk_def Let_def or_default_falsy)

text \<open>
  A snapshot whose min temperature, UV index and humidity for day 0 are observed as
  exactly 0 and whose precipitation is \<open>NaN\<close>.
\<close>

theorem processWeatherForRisk_defaults_on_falsy_witness:
  "js_index [Num 0] 0 = Some (Num 0) \<and> falsy (js_index [Num 0] 0) \<and> falsy (js_index [NaN] 0)
   \<and> processWeatherForRisk
        \<lparr>latitude = 45, longitude = -75,
         hourly = Some \<lparr>time_hourly = [''2024-01-01T00:00''], temperature_2m = [Num 2],
                         relative_humidity_2m = [Num 0], wind_speed_10m = [Num 20],
                         precipitation_hourly = [Num 0]\<rparr>,
         daily = Some \<lparr>time_daily = [''2024-01-01''], temperature_2m_max = [Num 4],
                        temperature_2m_min = [Num 0], uv_index_max = [Num 0],
                        precipitation_sum = [NaN]\<rparr>\<rparr> 0
       = Inr \<lparr>temperature = 4, humidity = 50, windSpeed = 20, uvIndex = 5,
              windChill = 5, precipitation = 0\<rparr>"
proof -
  let ?hly = "\<lparr>time_hourly = [''2024-01-01T00:00''], temperature_2m = [Num 2],
                relative_humidity_2m = [Num 0], wind_speed_10m = [Num 20],
                precipitation_hourly = [Num 0]\<rparr>"
  let ?dly = "\<lparr>time_daily = [''2024-01-01''], temperature_2m_max = [Num 4],
                temperature_2m_min = [Num 0], uv_index_max = [Num 0],
                precipitation_sum = [NaN]\<rparr>"
  let ?dat = "\<lparr>latitude = 45, longitude = -75, hourly = Some ?hly, daily = Some ?dly\<rparr>"
  have i0: "js_index [Num 0] 0 = Some (Num 0)" by (simp add: js_index_def)
  have f0: "falsy (js_index [Num 0] 0)" by (simp add: js_index_def falsy_def)
  have fn: "falsy (js_index [NaN] 0)" by (simp add: js_index_def falsy_def)
  have hi: "(0::int) = min (0 * 24) (int (length (time_hourly ?hly)) - 1)" by simp
  from processWeatherForRisk_defaults_on_falsy [of ?dat ?dly ?hly 0 0, OF _ _ hi]
  obtain w where w: "processWeatherForRisk ?dat 0 = Inr w"
    and chill: "windChill w = 15 - windSpeed w * 0.5"
    and uv: "uvIndex w = 5" and hum: "humidity w = 50" and pr: "precipitation w = 0"
    using i0 f0 fn by auto
  have "temperature w = 4" and "windSpeed w = 20"
    using w by (auto simp: processWeatherForRisk_def Let_def js_index_def)
  with chill uv hum pr have "w = \<lparr>temperature = 4, humidity = 50, windSpeed = 20, uvIndex = 5,
              windChill = 5, precipitation = 0\<rparr>"
    by (cases w) simp
  with w i0 f0 fn show ?thesis by simp
qed

section \<open>Properties of the air-quality resolver\<close>

lemma atan2_abs_sin_cos:
  assumes "\<bar>x\<bar> < pi / 2"
  shows "atan2 (sqrt (sin x * sin x)) (sqrt (1 - sin x * sin x)) = \<bar>x\<bar>"
proof -
  have c: "cos x > 0" using assms by (intro cos_gt_zero_pi) (auto simp: abs_less_iff)
  have "1 - sin x * sin x = cos x * cos x"
    using sin_cos_squared_add [of x] by (simp add: power2_eq_square algebra_simps)
  then have s2: "sqrt (1 - sin x * sin x) = cos x" using c by simp
  have s1: "sqrt (sin x * sin x) = \<bar>sin x\<bar>" by simp
  have "\<bar>sin x\<bar> = sin \<bar>x\<bar>"
  proof (cases "0 \<le> x")
    case True
    then have "0 \<le> sin x" using assms by (intro sin_ge_zero) auto
    with True show ?thesis by simp
  next
    case False
    then have "0 \<le> sin (- x)" using assms by (intro sin_ge_zero) auto
    with False show ?thesis by simp
  qed
  moreover have "cos x = cos \<bar>x\<bar>" by (simp add: abs_if)
  ultimately have "atan2 (sqrt (sin x * sin x)) (sqrt (1 - sin x * sin x)) = arctan (sin \<bar>x\<bar> / cos \<bar>x\<bar>)"
    using c s1 s2 by (simp add: atan2_def)
  also have "\<dots> = arctan (tan \<bar>x\<bar>)" by (simp add: tan_def)
  also have "\<dots> = \<bar>x\<bar>" using assms by (intro arctan_tan) auto
  finally show ?thesis .
qed

lemma calculateDistance_meridian:
  assumes "\<bar>lat2 - lat1\<bar> < 180"
  shows "calculateDistance lat1 lon lat2 lon = 6371 * (\<bar>lat2 - lat1\<bar> * pi / 180)"
proof -
  let ?x = "(lat2 - lat1) * pi / 180 / 2"
  have "\<bar>?x\<bar> = \<bar>lat2 - lat1\<bar> * pi / 360" by (simp add: abs_mult)
  also have "\<dots> < 180 * pi / 360" using assms pi_gt_zero by (intro divide_strict_right_mono mult_strict_right_mono) auto
  finally have b: "\<bar>?x\<bar> < pi / 2" by simp
  have "calculateDistance lat1 lon lat2 lon = 6371 * (2 * atan2 (sqrt (sin ?x * sin ?x)) (sqrt (1 - sin ?x * sin ?x)))"
    by (simp add: calculateDistance_def Let_def)
  also have "\<dots> = 6371 * (2 * \<bar>?x\<bar>)" by (simp only: atan2_abs_sin_cos [OF b])
  also have "\<dots> = 6371 * (\<bar>lat2 - lat1\<bar> * pi / 180)" by (simp add: abs_mult)
  finally show ?thesis .
qed

text \<open>A station due north of the point (0, 0) at the given distance in km.\<close>

lemma station_distance_north:
  assumes "0 \<le> km" "km < 12742"
  shows "station_distance 0 0 \<lparr>station_id = i, station_name = n,
           coordinates = \<lparr>coord_latitude = km * 180 / (6371 * pi), coord_longitude = 0\<rparr>\<rparr> = km"
proof -
  let ?l = "km * 180 / (6371 * pi)"
  have "?l < 12742 * 180 / (6371 * pi)"
    using assms by (intro divide_strict_right_mono mult_strict_right_mono) auto
  also have "\<dots> = 360 / pi" by simp
  also have "\<dots> \<le> 180" using pi_ge_two by (simp add: field_simps)
  finally have lt: "?l < 180" .
  have ge: "0 \<le> ?l" using assms by simp
  from lt ge have "\<bar>?l - 0\<bar> < 180" by simp
  then have "calculateDistance 0 0 ?l 0 = 6371 * (\<bar>?l - 0\<bar> * pi / 180)"
    by (rule calculateDistance_meridian)
  also have "\<dots> = 6371 * (?l * pi / 180)" using ge by (simp only: diff_zero abs_of_nonneg)
  also have "\<dots> = km" by simp
  finally show ?thesis by (simp add: station_distance_def)
qed



lemma station_distance_station_north:
  "0 \<le> km \<Longrightarrow> km < 12742 \<Longrightarrow> station_distance 0 0 (station_north i n km) = km"
  unfolding station_north_def by (rule station_distance_north)

lemma fetchAirQualityData_never_raises:
  "\<exists>r. snd (fetchAirQualityData c now later toStr net lat lon radius) = Inr r"
  by (simp add: fetchAirQualityData_def Let_def split: prod.splits option.splits sum.splits)

lemma fetchAirQualityData_miss:
  assumes "snd (WeatherCache_get c now (airQualityCacheKey toStr lat lon radius)) = None"
  shows "fetchAirQualityData c now later toStr net lat lon radius =
     (case fetchAirQualityData_try (fst (WeatherCache_get c now (airQualityCacheKey toStr lat lon radius)))
             later (airQualityCacheKey toStr lat lon radius) net lat lon radius of
        (c'', Inl e) \<Rightarrow> (c'', Inr getFallbackAirQuality)
      | (c'', Inr r) \<Rightarrow> (c'', Inr r))"
  using assms
  by (cases "WeatherCache_get c now (airQualityCacheKey toStr lat lon radius)")
     (simp add: fetchAirQualityData_def Let_def)

lemma weatherCache_miss: "snd (WeatherCache_get weatherCache now k) = None"
  by (simp add: WeatherCache_get_def weatherCache_def new_WeatherCache_def)

lemma fst_weatherCache_miss: "fst (WeatherCache_get weatherCache now k) = weatherCache"
  by (simp add: WeatherCache_get_def weatherCache_def new_WeatherCache_def)

lemma fetchAirQualityData_try_result:
  assumes "get_locations net lat lon radius = Inr resp" "ok resp" "json resp = Inr dat"
    "results dat = Some stations" "nearest_station lat lon stations = Some (st, d)"
  shows "fetchAirQualityData_try c later key net lat lon radius =
     (case get_measurements net (station_id st) of
        Inl e \<Rightarrow> (c, Inl e)
      | Inr m \<Rightarrow>
          (case (if ok m
                 then (case json m of
                         Inl e \<Rightarrow> Inl e
                       | Inr md \<Rightarrow> Inr (foldl pollutant_step (None, None, None) (measurement_results md)))
                 else Inr (None, None, None)) of
             Inl e \<Rightarrow> (c, Inl e)
           | Inr (p25, p10, n2) \<Rightarrow>
               (WeatherCache_set c later key
                  \<lparr>pm25 = p25, pm10 = p10, no2 = n2, station = Some (station_name st), distance = Some d\<rparr>,
                Inr \<lparr>pm25 = p25, pm10 = p10, no2 = n2, station = Some (station_name st), distance = Some d\<rparr>)))"
  using assms by (simp add: fetchAirQualityData_try_def Let_def split: sum.splits)




lemma fetchAirQualityData_try_thrown:
  assumes miss: "snd (WeatherCache_get c now (airQualityCacheKey toStr lat lon radius)) = None"
    and thrown: "snd (fetchAirQualityData_try (fst (WeatherCache_get c now (airQualityCacheKey toStr lat lon radius)))
             later (airQualityCacheKey toStr lat lon radius) net lat lon radius) = Inl e"
  shows "snd (fetchAirQualityData c now later toStr net lat lon radius) = Inr getFallbackAirQuality"
  using thrown unfolding fetchAirQualityData_miss [OF miss]
  by (auto split: prod.splits sum.splits)

lemma fetchAirQualityData_try_returned:
  assumes miss: "snd (WeatherCache_get c now (airQualityCacheKey toStr lat lon radius)) = None"
    and returned: "snd (fetchAirQualityData_try (fst (WeatherCache_get c now (airQualityCacheKey toStr lat lon radius)))
             later (airQualityCacheKey toStr lat lon radius) net lat lon radius) = Inr r"
  shows "snd (fetchAirQualityData c now later toStr net lat lon radius) = Inr r"
  using returned unfolding fetchAirQualityData_miss [OF miss]
  by (auto split: prod.splits sum.splits)

text \<open>
  Claim C5, as the code has it.  \<open>fetchAirQualityData\<close> never raises.  When the cache
  has no live entry for the key, it returns the ``no data'' snapshot (all five fields
  absent) if the station listing is rejected, has a non-success status, has a body
  that does not parse or lists no station, and also if the measurements request is
  rejected or its body does not parse.  If the measurements request has a non-success
  status, the three pollutant fields are absent but the station name and the distance
  are those of the nearest station.
\<close>

theorem fetchAirQualityData_degrades:
  "(\<exists>r. snd (fetchAirQualityData c now later toStr net lat lon radius) = Inr r)
   \<and> (snd (WeatherCache_get c now (airQualityCacheKey toStr lat lon radius)) = None \<longrightarrow>
        (\<forall>e. get_locations net lat lon radius = Inl e \<longrightarrow>
           snd (fetchAirQualityData c now later toStr net lat lon radius) = Inr getFallbackAirQuality)
      \<and> (\<forall>resp. get_locations net lat lon radius = Inr resp \<and> \<not> ok resp \<longrightarrow>
           snd (fetchAirQualityData c now later toStr net lat lon radius) = Inr getFallbackAirQuality)
      \<and> (\<forall>resp e. get_locations net lat lon radius = Inr resp \<and> ok resp \<and> json resp = Inl e \<longrightarrow>
           snd (fetchAirQualityData c now later toStr net lat lon radius) = Inr getFallbackAirQuality)
      \<and> (\<forall>resp dat. get_locations net lat lon radius = Inr resp \<and> ok resp \<and> json resp = Inr dat
             \<and> (results dat = None \<or> results dat = Some []) \<longrightarrow>
           snd (fetchAirQualityData c now later toStr net lat lon radius) = Inr getFallbackAirQuality)
      \<and> (\<forall>resp dat stations st d.
            get_locations net lat lon radius = Inr resp \<and> ok resp \<and> json resp = Inr dat
            \<and> results dat = Some stations \<and> nearest_station lat lon stations = Some (st, d) \<longrightarrow>
            (\<forall>e. get_measurements net (station_id st) = Inl e \<longrightarrow>
               snd (fetchAirQualityData c now later toStr net lat lon radius) = Inr getFallbackAirQuality)
          \<and> (\<forall>m e. get_measurements net (station_id st) = Inr m \<and> ok m \<and> json m = Inl e \<longrightarrow>
               snd (fetchAirQualityData c now later toStr net lat lon radius) = Inr getFallbackAirQuality)
          \<and> (\<forall>m. get_measurements net (station_id st) = Inr m \<and> \<not> ok m \<longrightarrow>
               snd (fetchAirQualityData c now later toStr net lat lon radius)
                 = Inr \<lparr>pm25 = None, pm10 = None, no2 = None,
                        station = Some (station_name st), distance = Some d\<rparr>)))"
proof (intro conjI impI allI)
  show "\<exists>r. snd (fetchAirQualityData c now later toStr net lat lon radius) = Inr r"
    by (rule fetchAirQualityData_never_raises)
next
  fix e
  assume miss: "snd (WeatherCache_get c now (airQualityCacheKey toStr lat lon radius)) = None"
    and "get_locations net lat lon radius = Inl e"
  then show "snd (fetchAirQualityData c now later toStr net lat lon radius) = Inr getFallbackAirQuality"
    by (intro fetchAirQualityData_try_thrown [where e = e]) (simp_all add: fetchAirQualityData_try_def)
next
  fix resp
  assume miss: "snd (WeatherCache_get c now (airQualityCacheKey toStr lat lon radius)) = None"
    and "get_locations net lat lon radius = Inr resp \<and> \<not> ok resp"
  then show "snd (fetchAirQualityData c now later toStr net lat lon radius) = Inr getFallbackAirQuality"
    by (intro fetchAirQualityData_try_returned) (simp_all add: fetchAirQualityData_try_def)
next
  fix resp e
  assume miss: "snd (WeatherCache_get c now (airQualityCacheKey toStr lat lon radius)) = None"
    and "get_locations net lat lon radius = Inr resp \<and> ok resp \<and> json resp = Inl e"
  then show "snd (fetchAirQualityData c now later toStr net lat lon radius) = Inr getFallbackAirQuality"
    by (intro fetchAirQualityData_try_thrown [where e = e]) (simp_all add: fetchAirQualityData_try_def)
next
  fix resp dat
  assume miss: "snd (WeatherCache_get c now (airQualityCacheKey toStr lat lon radius)) = None"
    and "get_locations net lat lon radius = Inr resp \<and> ok resp \<and> json resp = Inr dat
             \<and> (results dat = None \<or> results dat = Some [])"
  then show "snd (fetchAirQualityData c now later toStr net lat lon radius) = Inr getFallbackAirQuality"
    by (intro fetchAirQualityData_try_returned) (auto simp: fetchAirQualityData_try_def)
next
  fix resp dat stations st d e
  assume miss: "snd (WeatherCache_get c now (airQualityCacheKey toStr lat lon radius)) = None"
    and l: "get_locations net lat lon radius = Inr resp \<and> ok resp \<and> json resp = Inr dat
            \<and> results dat = Some stations \<and> nearest_station lat lon stations = Some (st, d)"
    and "get_measurements net (station_id st) = Inl e"
  then show "snd (fetchAirQualityData c now later toStr net lat lon radius) = Inr getFallbackAirQuality"
    by (intro fetchAirQualityData_try_thrown [where e = e])
       (simp_all add: fetchAirQualityData_try_result [of net lat lon radius resp dat stations st d])
next
  fix resp dat stations st d m e
  assume miss: "snd (WeatherCache_get c now (airQualityCacheKey toStr lat lon radius)) = None"
    and l: "get_locations net lat lon radius = Inr resp \<and> ok resp \<and> json resp = Inr dat
            \<and> results dat = Some stations \<and> nearest_station lat lon stations = Some (st, d)"
    and "get_measurements net (station_id st) = Inr m \<and> ok m \<and> json m = Inl e"
  then show "snd (fetchAirQualityData c now later toStr net lat lon radius) = Inr getFallbackAirQuality"
    by (intro fetchAirQualityData_try_thrown [where e = e])
       (simp_all add: fetchAirQualityData_try_result [of net lat lon radius resp dat stations st d])
next
  fix resp dat stations st d m
  assume miss: "snd (WeatherCache_get c now (airQualityCacheKey toStr lat lon radius)) = None"
    and l: "get_locations net lat lon radius = Inr resp \<and> ok resp \<and> json resp = Inr dat
            \<and> results dat = Some stations \<and> nearest_station lat lon stations = Some (st, d)"
    and "get_measurements net (station_id st) = Inr m \<and> \<not> ok m"
  then show "snd (fetchAirQualityData c now later toStr net lat lon radius)
                 = Inr \<lparr>pm25 = None, pm10 = None, no2 = None,
                        station = Some (station_name st), distance = Some d\<rparr>"
    by (intro fetchAirQualityData_try_returned)
       (simp_all add: fetchAirQualityData_try_result [of net lat lon radius resp dat stations st d])
qed

lemma station_distance_same_point:
  "station_distance lat lon \<lparr>station_id = i, station_name = n,
      coordinates = \<lparr>coord_latitude = lat, coord_longitude = lon\<rparr>\<rparr> = 0"
  by (simp add: station_distance_def calculateDistance_def atan2_def)

lemma failing_measurements_fetch:
  "snd (fetchAirQualityData weatherCache 0 1 example_toStr failing_measurements_network 45 (- 75) 50000)
     = Inr \<lparr>pm25 = None, pm10 = None, no2 = None, station = Some ''Ottawa'', distance = Some 0\<rparr>"
  by (intro fetchAirQualityData_try_returned)
     (simp_all add: weatherCache_miss fetchAirQualityData_try_def failing_measurements_network_def
        nearest_step_def station_distance_same_point Let_def)

text \<open>
  With one station listed and status 500 from the measurements request, the result
  names the station and its distance: it is not the ``no data'' snapshot.
\<close>

theorem fetchAirQualityData_measurements_status_counterexample:
  "get_measurements failing_measurements_network 1
     = Inr \<lparr>ok = False, status = 500, json = Inl (Thrown ''SyntaxError'')\<rparr>
   \<and> snd (fetchAirQualityData weatherCache 0 1 example_toStr failing_measurements_network 45 (- 75) 50000)
       = Inr \<lparr>pm25 = None, pm10 = None, no2 = None, station = Some ''Ottawa'', distance = Some 0\<rparr>
   \<and> snd (fetchAirQualityData weatherCache 0 1 example_toStr failing_measurements_network 45 (- 75) 50000)
       \<noteq> Inr getFallbackAirQuality"
  by (simp add: failing_measurements_fetch) (simp add: failing_measurements_network_def getFallbackAirQuality_def)

theorem fetchAirQualityData_degrades_witness:
  "snd (WeatherCache_get (weatherCache :: AirQualityData WeatherCache) 0
          (airQualityCacheKey example_toStr 45 (- 75) 50000)) = None
   \<and> get_locations unreachable_network 45 (- 75) 50000 = Inl (Thrown ''TypeError: fetch failed'')
   \<and> snd (fetchAirQualityData weatherCache 0 1 example_toStr unreachable_network 45 (- 75) 50000)
       = Inr getFallbackAirQuality
   \<and> nearest_station 45 (- 75) [\<lparr>station_id = 1, station_name = ''Ottawa'',
          coordinates = \<lparr>coord_latitude = 45, coord_longitude = - 75\<rparr>\<rparr>]
       = Some (\<lparr>station_id = 1, station_name = ''Ottawa'',
          coordinates = \<lparr>coord_latitude = 45, coord_longitude = - 75\<rparr>\<rparr>, 0)
   \<and> snd (fetchAirQualityData weatherCache 0 1 example_toStr failing_measurements_network 45 (- 75) 50000)
       = Inr \<lparr>pm25 = None, pm10 = None, no2 = None, station = Some ''Ottawa'', distance = Some 0\<rparr>"
proof -
  let ?st = "\<lparr>station_id = 1, station_name = ''Ottawa'',
          coordinates = \<lparr>coord_latitude = 45, coord_longitude = - 75\<rparr>\<rparr>"
  let ?dat = "\<lparr>results = Some [?st]\<rparr>"
  let ?resp = "\<lparr>ok = True, status = 200, json = Inr ?dat\<rparr>"
  let ?m = "\<lparr>ok = False, status = 500, json = Inl (Thrown ''SyntaxError'') :: error + OpenAQMeasurements\<rparr>"
  have m: "snd (WeatherCache_get (weatherCache :: AirQualityData WeatherCache) 0
          (airQualityCacheKey example_toStr 45 (- 75) 50000)) = None"
    by (rule weatherCache_miss)
  have u: "get_locations unreachable_network 45 (- 75) 50000 = Inl (Thrown ''TypeError: fetch failed'')"
    by (simp add: unreachable_network_def)
  note a = fetchAirQualityData_degrades [of weatherCache 0 1 example_toStr unreachable_network 45 "- 75" 50000,
      THEN conjunct2, rule_format, OF m, THEN conjunct1, rule_format, OF u]
  have n: "nearest_station 45 (- 75) [?st] = Some (?st, 0)"
    by (simp add: nearest_step_def station_distance_same_point Let_def)
  have l: "get_locations failing_measurements_network 45 (- 75) 50000 = Inr ?resp \<and> ok ?resp
      \<and> json ?resp = Inr ?dat \<and> results ?dat = Some [?st] \<and> nearest_station 45 (- 75) [?st] = Some (?st, 0)"
    using n by (simp add: failing_measurements_network_def)
  have g: "get_measurements failing_measurements_network (station_id ?st) = Inr ?m \<and> \<not> ok ?m"
    by (simp add: failing_measurements_network_def)
  note b = fetchAirQualityData_degrades [of weatherCache 0 1 example_toStr failing_measurements_network 45 "- 75" 50000,
      THEN conjunct2, rule_format, OF m, THEN conjunct2, THEN conjunct2, THEN conjunct2, THEN conjunct2,
      rule_format, OF l, THEN conjunct2, THEN conjunct2, rule_format, OF g]
  from m u a n b show ?thesis by simp
qed

lemma append_separator_eq:
  assumes "CHR ''_'' \<notin> set xs" and "CHR ''_'' \<notin> set xs'"
    and "xs @ CHR ''_'' # ys = xs' @ CHR ''_'' # ys'"
  shows "xs = xs' \<and> ys = ys'"
  using assms
proof (induction xs arbitrary: xs')
  case Nil
  then show ?case by (cases xs') auto
next
  case (Cons x xs)
  then show ?case by (cases xs') auto
qed

text \<open>
  Where the conversion of a number to a string gives no underscore, as that of
  JavaScript does, the weather key determines the strings of all three parameters and
  the air-quality key those of the two coordinates; and the two kinds of key differ.
\<close>

lemma weatherCacheKey_determines:
  assumes "\<And>x. CHR ''_'' \<notin> set (toStr x)"
    and "weatherCacheKey toStr lat lon days = weatherCacheKey toStr lat' lon' days'"
  shows "toStr lat = toStr lat' \<and> toStr lon = toStr lon' \<and> toStr (real days) = toStr (real days')"
proof -
  from assms(2) have "toStr lat @ CHR ''_'' # (toStr lon @ CHR ''_'' # toStr (real days))
      = toStr lat' @ CHR ''_'' # (toStr lon' @ CHR ''_'' # toStr (real days'))"
    by (simp add: weatherCacheKey_def)
  from append_separator_eq [OF assms(1) assms(1) this]
  have a: "toStr lat = toStr lat'"
    and "toStr lon @ CHR ''_'' # toStr (real days) = toStr lon' @ CHR ''_'' # toStr (real days')"
    by simp_all
  from append_separator_eq [OF assms(1) assms(1) this(2)] a show ?thesis by simp
qed

lemma airQualityCacheKey_determines:
  assumes "\<And>x. CHR ''_'' \<notin> set (toStr x)"
    and "airQualityCacheKey toStr lat lon radius = airQualityCacheKey toStr lat' lon' radius'"
  shows "toStr lat = toStr lat' \<and> toStr lon = toStr lon'"
proof -
  from assms(2) have "toStr lat @ CHR ''_'' # toStr lon = toStr lat' @ CHR ''_'' # toStr lon'"
    by (simp add: airQualityCacheKey_def)
  from append_separator_eq [OF assms(1) assms(1) this] show ?thesis .
qed

lemma cache_key_tags_differ:
  "weatherCacheKey toStr lat lon days \<noteq> airQualityCacheKey toStr lat' lon' radius"
  by (simp add: weatherCacheKey_def airQualityCacheKey_def)

text \<open>
  Claim C9 at its failing input.  The air-quality key does not depend on the radius:
  two lookups at the same coordinate with different radii have the same key.  So
  with a station 3 km away, a lookup with radius 1000 m on a fresh cache finds no
  station and returns ``no data'', but the same lookup made after a lookup with radius
  50000 m returns the station 3 km away from the cache.
\<close>

theorem airQualityCacheKey_ignores_radius:
  "airQualityCacheKey toStr lat lon radius1 = airQualityCacheKey toStr lat lon radius2
   \<and> snd (fetchAirQualityData weatherCache 0 1 example_toStr radius_network 0 0 1000)
       = Inr getFallbackAirQuality
   \<and> snd (fetchAirQualityData weatherCache 0 1 example_toStr radius_network 0 0 50000)
       = Inr \<lparr>pm25 = None, pm10 = None, no2 = None, station = Some ''B'', distance = Some 3\<rparr>
   \<and> snd (fetchAirQualityData
            (fst (fetchAirQualityData weatherCache 0 1 example_toStr radius_network 0 0 50000))
            2 3 example_toStr radius_network 0 0 1000)
       = Inr \<lparr>pm25 = None, pm10 = None, no2 = None, station = Some ''B'', distance = Some 3\<rparr>"
proof (intro conjI)
  show "airQualityCacheKey toStr lat lon radius1 = airQualityCacheKey toStr lat lon radius2"
    by (simp add: airQualityCacheKey_def)
next
  show "snd (fetchAirQualityData weatherCache 0 1 example_toStr radius_network 0 0 1000)
       = Inr getFallbackAirQuality"
    by (intro fetchAirQualityData_try_returned)
       (simp_all add: weatherCache_miss fetchAirQualityData_try_def radius_network_def)
next
  have k: "airQualityCacheKey example_toStr 0 0 r = ''airquality_0_0''" for r
    by (simp add: airQualityCacheKey_def example_toStr_def)
  have n: "nearest_station 0 0 [station_north 2 ''B'' 3] = Some (station_north 2 ''B'' 3, 3)"
    by (simp add: nearest_step_def station_distance_station_north Let_def)
  have l: "get_locations radius_network 0 0 50000
      = Inr \<lparr>ok = True, status = 200, json = Inr \<lparr>results = Some [station_north 2 ''B'' 3]\<rparr>\<rparr>"
    by (simp add: radius_network_def)
  have t: "fetchAirQualityData_try weatherCache 1 ''airquality_0_0'' radius_network 0 0 50000
     = (WeatherCache_set weatherCache 1 ''airquality_0_0''
          \<lparr>pm25 = None, pm10 = None, no2 = None, station = Some ''B'', distance = Some 3\<rparr>,
        Inr \<lparr>pm25 = None, pm10 = None, no2 = None, station = Some ''B'', distance = Some 3\<rparr>)"
    unfolding fetchAirQualityData_try_result [of radius_network 0 0 50000
      "\<lparr>ok = True, status = 200, json = Inr \<lparr>results = Some [station_north 2 ''B'' 3]\<rparr>\<rparr>"
      "\<lparr>results = Some [station_north 2 ''B'' 3]\<rparr>" "[station_north 2 ''B'' 3]",
      OF l _ _ _ n, simplified]
    by (simp add: radius_network_def station_north_def)
  then have first: "fetchAirQualityData weatherCache 0 1 example_toStr radius_network 0 0 50000
     = (WeatherCache_set weatherCache 1 ''airquality_0_0''
          \<lparr>pm25 = None, pm10 = None, no2 = None, station = Some ''B'', distance = Some 3\<rparr>,
        Inr \<lparr>pm25 = None, pm10 = None, no2 = None, station = Some ''B'', distance = Some 3\<rparr>)"
    by (simp add: fetchAirQualityData_miss weatherCache_miss fst_weatherCache_miss k)
  then show "snd (fetchAirQualityData weatherCache 0 1 example_toStr radius_network 0 0 50000)
       = Inr \<lparr>pm25 = None, pm10 = None, no2 = None, station = Some ''B'', distance = Some 3\<rparr>"
    by simp
  show "snd (fetchAirQualityData
            (fst (fetchAirQualityData weatherCache 0 1 example_toStr radius_network 0 0 50000))
            2 3 example_toStr radius_network 0 0 1000)
       = Inr \<lparr>pm25 = None, pm10 = None, no2 = None, station = Some ''B'', distance = Some 3\<rparr>"
    unfolding first
    by (simp add: fetchAirQualityData_def k WeatherCache_get_def WeatherCache_set_def ttl_weatherCache)
qed

section \<open>Properties of the weather source client\<close>

lemma hourly_series_Suc:
  "hourly_series (Suc n) f = hourly_series n f @ map (f n) [0..<24]"
  by (simp add: hourly_series_def)

lemma length_hourly_series: "length (hourly_series days f) = days * 24"
  by (induction days) (simp_all add: hourly_series_Suc, simp add: hourly_series_def)

lemma nth_hourly_series:
  "day < days \<Longrightarrow> h < 24 \<Longrightarrow> hourly_series days f ! (day * 24 + h) = f day h"
proof (induction days)
  case 0
  then show ?case by simp
next
  case (Suc n)
  show ?case
  proof (cases "day < n")
    case True
    then have "day * 24 + h < n * 24" using Suc.prems(2) by simp
    then show ?thesis using Suc True
      by (simp add: hourly_series_Suc nth_append length_hourly_series)
  next
    case False
    then have "day = n" using Suc.prems(1) by simp
    then show ?thesis using Suc.prems(2)
      by (simp add: hourly_series_Suc nth_append length_hourly_series del: upt_Suc)
  qed
qed

lemma round_half_up_close: "\<bar>of_int \<lfloor>x + 1 / 2\<rfloor> - x\<bar> \<le> (1 / 2 :: real)"
  by linarith

lemma scaled_close:
  fixes k x m :: real
  assumes "\<bar>k - x * m\<bar> \<le> 1 / 2" and "0 < m"
  shows "\<bar>k / m - x\<bar> \<le> 1 / (2 * m)"
proof -
  have "k / m - x = (k - x * m) / m" using assms(2) by (simp add: field_simps)
  then have "\<bar>k / m - x\<bar> = \<bar>k - x * m\<bar> / m" using assms(2) by (simp add: abs_divide)
  also have "\<dots> \<le> (1 / 2) / m" using assms by (intro divide_right_mono) auto
  finally show ?thesis by simp
qed

lemma signed_scaled_close:
  fixes k x m :: real
  assumes "\<bar>k - \<bar>x\<bar> * m\<bar> \<le> 1 / 2" and "0 < m"
  shows "\<bar>sgn x * k / m - x\<bar> \<le> 1 / (2 * m)"
proof -
  have c: "\<bar>k / m - \<bar>x\<bar>\<bar> \<le> 1 / (2 * m)" using assms by (rule scaled_close)
  have "sgn x * k / m - x = sgn x * (k / m - \<bar>x\<bar>)"
    by (simp add: algebra_simps sgn_if abs_if)
  then have "\<bar>sgn x * k / m - x\<bar> = \<bar>sgn x\<bar> * \<bar>k / m - \<bar>x\<bar>\<bar>" by (simp add: abs_mult)
  also have "\<dots> \<le> 1 * \<bar>k / m - \<bar>x\<bar>\<bar>"
    by (intro mult_right_mono) (auto simp: sgn_if)
  finally show ?thesis using c by simp
qed

lemma hourly_temperature_rounded:
  "\<exists>r. js_div (js_round (js_mul (js_div (js_add (Num a) (Num b)) (Num 2)) (Num 10))) (Num 10) = Num r
      \<and> rounded_to_decimals 1 ((a + b) / 2) r"
proof -
  define x where "x = (a + b) / 2"
  define k where "k = \<lfloor>x * 10 + 1 / 2\<rfloor>"
  have "\<bar>of_int k - x * 10\<bar> \<le> 1 / 2" unfolding k_def by (rule round_half_up_close)
  then have "\<bar>of_int k / 10 - x\<bar> \<le> 1 / (2 * 10)" by (rule scaled_close) simp
  then have "rounded_to_decimals 1 x (of_int k / 10)"
    by (auto simp: rounded_to_decimals_def)
  moreover have "js_div (js_round (js_mul (js_div (js_add (Num a) (Num b)) (Num 2)) (Num 10))) (Num 10)
      = Num (of_int k / 10)"
    by (simp add: k_def x_def)
  ultimately show ?thesis unfolding x_def by blast
qed

lemma hourly_precipitation_rounded:
  "\<exists>r. js_toFixed3 (js_div (Num p) (Num 24)) = Num r \<and> rounded_to_decimals 3 (p / 24) r"
proof -
  define x where "x = p / 24"
  define k where "k = \<lfloor>\<bar>x\<bar> * 1000 + 1 / 2\<rfloor>"
  define r where "r = sgn x * of_int k / 1000"
  have "\<bar>of_int k - \<bar>x\<bar> * 1000\<bar> \<le> 1 / 2" unfolding k_def by (rule round_half_up_close)
  then have "\<bar>sgn x * of_int k / 1000 - x\<bar> \<le> 1 / (2 * 1000)"
    by (rule signed_scaled_close) simp
  then have close: "\<bar>r - x\<bar> \<le> 1 / (2 * 10 ^ 3)" by (simp add: r_def)
  have "r = of_int (if x < 0 then - k else if x = 0 then 0 else k) / 10 ^ 3"
    by (simp add: r_def sgn_if)
  then have "\<exists>j::int. r = of_int j / 10 ^ 3" by blast
  with close have "rounded_to_decimals 3 x r" by (simp add: rounded_to_decimals_def)
  moreover have "js_toFixed3 (js_div (Num p) (Num 24)) = Num r"
    by (simp add: r_def k_def x_def)
  ultimately show ?thesis unfolding x_def by blast
qed

lemma fetchWeatherData_miss:
  assumes "snd (WeatherCache_get c now (weatherCacheKey toStr lat lon days)) = None"
  shows "fetchWeatherData c now later toStr cal net lat lon days =
     (case fetchWeatherData_try (fst (WeatherCache_get c now (weatherCacheKey toStr lat lon days)))
             later (weatherCacheKey toStr lat lon days) toStr net lat lon days of
        (c'', Inr dat) \<Rightarrow> (c'', Inr dat)
      | (c'', Inl err) \<Rightarrow>
          (case fetchWeatherDataFromNASA toStr cal net lat lon days of
             Inr nasaData \<Rightarrow>
               (WeatherCache_set c'' later (weatherCacheKey toStr lat lon days) nasaData, Inr nasaData)
           | Inl nasaError \<Rightarrow> (c'', Inl err)))"
  using assms
  by (cases "WeatherCache_get c now (weatherCacheKey toStr lat lon days)")
     (simp add: fetchWeatherData_def Let_def)

lemma fetchWeatherData_try_Inl_cache:
  "fetchWeatherData_try c later key toStr net lat lon days = (c', Inl err) \<Longrightarrow> c' = c"
  by (auto simp: fetchWeatherData_try_def split: sum.splits if_splits)

lemma fetchWeatherData_both_fail:
  assumes miss: "snd (WeatherCache_get c now (weatherCacheKey toStr lat lon days)) = None"
    and primary: "snd (fetchWeatherData_try (fst (WeatherCache_get c now (weatherCacheKey toStr lat lon days)))
             later (weatherCacheKey toStr lat lon days) toStr net lat lon days) = Inl err"
    and secondary: "fetchWeatherDataFromNASA toStr cal net lat lon days = Inl nasaError"
  shows "fetchWeatherData c now later toStr cal net lat lon days
           = (fst (WeatherCache_get c now (weatherCacheKey toStr lat lon days)), Inl err)"
proof -
  let ?c' = "fst (WeatherCache_get c now (weatherCacheKey toStr lat lon days))"
  obtain c'' where t: "fetchWeatherData_try ?c' later (weatherCacheKey toStr lat lon days) toStr net lat lon days
      = (c'', Inl err)"
    using primary by (cases "fetchWeatherData_try ?c' later (weatherCacheKey toStr lat lon days) toStr net lat lon days") simp
  then have "c'' = ?c'" by (rule fetchWeatherData_try_Inl_cache)
  with t secondary show ?thesis by (simp add: fetchWeatherData_miss [OF miss])
qed

text \<open>
  Claim C3.  When the cache has no live entry for the key, the primary provider
  fails (the request is rejected, or the status is not a success, or the body does
  not parse) and the secondary provider fails too, \<open>fetchWeatherData\<close> raises the
  primary provider's error: the value the request was rejected with, the error
  ``Open-Meteo API error: status'', or the parse error; never the secondary one's.
\<close>

theorem fetchWeatherData_rethrows_primary_error:
  assumes miss: "snd (WeatherCache_get c now (weatherCacheKey toStr lat lon days)) = None"
    and secondary: "fetchWeatherDataFromNASA toStr cal net lat lon days = Inl nasaError"
  shows "(\<forall>e. get_forecast net lat lon days = Inl e \<longrightarrow>
            snd (fetchWeatherData c now later toStr cal net lat lon days) = Inl e)
    \<and> (\<forall>r. get_forecast net lat lon days = Inr r \<and> \<not> ok r \<longrightarrow>
            snd (fetchWeatherData c now later toStr cal net lat lon days)
              = Inl (Error (''Open-Meteo API error: '' @ toStr (real (status r)))))
    \<and> (\<forall>r e. get_forecast net lat lon days = Inr r \<and> ok r \<and> json r = Inl e \<longrightarrow>
            snd (fetchWeatherData c now later toStr cal net lat lon days) = Inl e)"
proof (intro conjI allI impI)
  fix e assume "get_forecast net lat lon days = Inl e"
  then have "snd (fetchWeatherData_try (fst (WeatherCache_get c now (weatherCacheKey toStr lat lon days)))
             later (weatherCacheKey toStr lat lon days) toStr net lat lon days) = Inl e"
    by (simp add: fetchWeatherData_try_def)
  from fetchWeatherData_both_fail [OF miss this secondary]
  show "snd (fetchWeatherData c now later toStr cal net lat lon days) = Inl e" by simp
next
  fix r assume "get_forecast net lat lon days = Inr r \<and> \<not> ok r"
  then have "snd (fetchWeatherData_try (fst (WeatherCache_get c now (weatherCacheKey toStr lat lon days)))
             later (weatherCacheKey toStr lat lon days) toStr net lat lon days)
        = Inl (Error (''Open-Meteo API error: '' @ toStr (real (status r))))"
    by (simp add: fetchWeatherData_try_def)
  from fetchWeatherData_both_fail [OF miss this secondary]
  show "snd (fetchWeatherData c now later toStr cal net lat lon days)
        = Inl (Error (''Open-Meteo API error: '' @ toStr (real (status r))))" by simp
next
  fix r e assume "get_forecast net lat lon days = Inr r \<and> ok r \<and> json r = Inl e"
  then have "snd (fetchWeatherData_try (fst (WeatherCache_get c now (weatherCacheKey toStr lat lon days)))
             later (weatherCacheKey toStr lat lon days) toStr net lat lon days) = Inl e"
    by (simp add: fetchWeatherData_try_def)
  from fetchWeatherData_both_fail [OF miss this secondary]
  show "snd (fetchWeatherData c now later toStr cal net lat lon days) = Inl e" by simp
qed

theorem fetchWeatherData_rethrows_primary_error_witness:
  "snd (WeatherCache_get (weatherCache :: OpenMeteoResponse WeatherCache) 0
          (weatherCacheKey example_toStr 45 (- 75) 7)) = None
   \<and> fetchWeatherDataFromNASA example_toStr example_calendar both_fail_network 45 (- 75) 7
       = Inl (Thrown ''TypeError: fetch failed'')
   \<and> get_forecast both_fail_network 45 (- 75) 7
       = Inr \<lparr>ok = False, status = 503, json = Inl (Thrown ''SyntaxError'')\<rparr>
   \<and> snd (fetchWeatherData weatherCache 0 1 example_toStr example_calendar both_fail_network 45 (- 75) 7)
       = Inl (Error ''Open-Meteo API error: 503'')"
proof -
  have m: "snd (WeatherCache_get (weatherCache :: OpenMeteoResponse WeatherCache) 0
          (weatherCacheKey example_toStr 45 (- 75) 7)) = None"
    by (rule weatherCache_miss)
  have n: "fetchWeatherDataFromNASA example_toStr example_calendar both_fail_network 45 (- 75) 7
       = Inl (Thrown ''TypeError: fetch failed'')"
    by (simp add: fetchWeatherDataFromNASA_def both_fail_network_def)
  have p: "get_forecast both_fail_network 45 (- 75) 7
       = Inr \<lparr>ok = False, status = 503, json = Inl (Thrown ''SyntaxError'')\<rparr>"
    by (simp add: both_fail_network_def)
  from fetchWeatherData_rethrows_primary_error [OF m n, of 1] p
  have "snd (fetchWeatherData weatherCache 0 1 example_toStr example_calendar both_fail_network 45 (- 75) 7)
       = Inl (Error (''Open-Meteo API error: '' @ example_toStr (real 503)))"
    by simp
  then have "snd (fetchWeatherData weatherCache 0 1 example_toStr example_calendar both_fail_network 45 (- 75) 7)
       = Inl (Error ''Open-Meteo API error: 503'')"
    by (simp add: example_toStr_def)
  with m n p show ?thesis by simp
qed

lemma nasa_daily_lengths:
  "length (nasa_tmax obj cal days) = days" "length (nasa_tmin obj cal days) = days"
  "length (nasa_uv obj cal days) = days" "length (nasa_pr obj cal days) = days"
  "length (nasa_wsDaily obj cal days) = days"
  by (simp_all add: nasa_tmax_def nasa_tmin_def nasa_uv_def nasa_pr_def nasa_wsDaily_def)

lemma nth_nasa_wsDaily:
  "day < days \<Longrightarrow> nasa_wsDaily obj cal days ! day =
     (case param_lookup obj ''WS2M'' (formatYMD cal day) of None \<Rightarrow> Num 0 | Some v \<Rightarrow> v)"
  by (simp add: nasa_wsDaily_def)

lemma fetchWeatherDataFromNASA_Inr:
  assumes "fetchWeatherDataFromNASA toStr cal net lat lon days = Inr snap"
  shows "\<exists>resp js. get_power net lat lon (formatYMD cal 0) (formatYMD cal (days - 1)) = Inr resp
      \<and> ok resp \<and> json resp = Inr js
      \<and> snap = nasa_mapped (nasa_parameterObj js) cal lat lon days"
  using assms
  by (auto simp: fetchWeatherDataFromNASA_def Let_def split: sum.splits if_splits)

lemma fetchWeatherData_fallback_served:
  assumes miss: "snd (WeatherCache_get c now (weatherCacheKey toStr lat lon days)) = None"
    and primary: "snd (fetchWeatherData_try (fst (WeatherCache_get c now (weatherCacheKey toStr lat lon days)))
             later (weatherCacheKey toStr lat lon days) toStr net lat lon days) = Inl err"
    and served: "snd (fetchWeatherData c now later toStr cal net lat lon days) = Inr snap"
  shows "fetchWeatherDataFromNASA toStr cal net lat lon days = Inr snap"
proof (cases "fetchWeatherDataFromNASA toStr cal net lat lon days")
  case (Inl nasaError)
  from fetchWeatherData_both_fail [OF miss primary Inl] served show ?thesis by simp
next
  case (Inr nasaData)
  obtain c'' where t: "fetchWeatherData_try (fst (WeatherCache_get c now (weatherCacheKey toStr lat lon days)))
             later (weatherCacheKey toStr lat lon days) toStr net lat lon days = (c'', Inl err)"
    using primary
    by (cases "fetchWeatherData_try (fst (WeatherCache_get c now (weatherCacheKey toStr lat lon days)))
             later (weatherCacheKey toStr lat lon days) toStr net lat lon days") simp
  from served show ?thesis
    by (simp add: fetchWeatherData_miss [OF miss] t Inr)
qed

lemma nasa_mapped_temperature:
  assumes "day < days" "h < 24"
    and "nasa_tmax obj cal days ! day = Num a" "nasa_tmin obj cal days ! day = Num b"
  shows "\<exists>r. hourly_series days
               (\<lambda>day h. let tAvg = js_div (js_add (nasa_tmax obj cal days ! day)
                                                   (nasa_tmin obj cal days ! day)) (Num 2)
                         in js_div (js_round (js_mul tAvg (Num 10))) (Num 10)) ! (day * 24 + h) = Num r
            \<and> rounded_to_decimals 1 ((a + b) / 2) r"
  unfolding nth_hourly_series [OF assms(1,2)] Let_def assms(3,4)
  by (rule hourly_temperature_rounded)

lemma nasa_mapped_precipitation:
  assumes "day < days" "h < 24" and "nasa_pr obj cal days ! day = Num p"
  shows "\<exists>r. hourly_series days
               (\<lambda>day h. js_toFixed3 (js_div (nasa_pr obj cal days ! day) (Num 24))) ! (day * 24 + h) = Num r
            \<and> rounded_to_decimals 3 (p / 24) r"
  unfolding nth_hourly_series [OF assms(1,2)] assms(3)
  by (rule hourly_precipitation_rounded)

lemma nasa_mapped_shape:
  "\<exists>hly dly. hourly (nasa_mapped obj cal lat lon days) = Some hly
     \<and> daily (nasa_mapped obj cal lat lon days) = Some dly
     \<and> length (time_daily dly) = days
     \<and> length (temperature_2m_max dly) = days
     \<and> length (temperature_2m_min dly) = days
     \<and> length (uv_index_max dly) = days
     \<and> length (precipitation_sum dly) = days
     \<and> length (time_hourly hly) = days * 24
     \<and> length (temperature_2m hly) = days * 24
     \<and> length (relative_humidity_2m hly) = days * 24
     \<and> length (wind_speed_10m hly) = days * 24
     \<and> length (precipitation_hourly hly) = days * 24
     \<and> (\<forall>day<days. \<forall>h<24.
           (\<forall>a b. temperature_2m_max dly ! day = Num a \<and> temperature_2m_min dly ! day = Num b \<longrightarrow>
              (\<exists>r. temperature_2m hly ! (day * 24 + h) = Num r \<and> rounded_to_decimals 1 ((a + b) / 2) r))
         \<and> relative_humidity_2m hly ! (day * 24 + h) = Num 50
         \<and> wind_speed_10m hly ! (day * 24 + h)
              = (case param_lookup obj ''WS2M'' (formatYMD cal day) of None \<Rightarrow> Num 0 | Some v \<Rightarrow> v)
         \<and> (\<forall>p. precipitation_sum dly ! day = Num p \<longrightarrow>
              (\<exists>r. precipitation_hourly hly ! (day * 24 + h) = Num r \<and> rounded_to_decimals 3 (p / 24) r)))"
  unfolding nasa_mapped_def Let_def
  apply (intro exI conjI)
                apply (simp)
               apply (simp)
              apply (simp_all only: Hourly.simps Daily.simps nasa_daily_lengths length_hourly_series length_map length_upt diff_zero)
  apply (intro allI impI conjI)
     apply (elim conjE, rule nasa_mapped_temperature [unfolded Let_def], assumption+)
    apply (simp only: nth_hourly_series)
   apply (simp only: nth_hourly_series nth_nasa_wsDaily)
  apply (rule nasa_mapped_precipitation, assumption+)
  done


lemma fetchWeatherData_fallback_result:
  assumes miss: "snd (WeatherCache_get c now (weatherCacheKey toStr lat lon days)) = None"
    and primary: "snd (fetchWeatherData_try (fst (WeatherCache_get c now (weatherCacheKey toStr lat lon days)))
             later (weatherCacheKey toStr lat lon days) toStr net lat lon days) = Inl err"
    and secondary: "fetchWeatherDataFromNASA toStr cal net lat lon days = Inr nasaData"
  shows "fetchWeatherData c now later toStr cal net lat lon days
           = (WeatherCache_set (fst (WeatherCache_get c now (weatherCacheKey toStr lat lon days))) later
                (weatherCacheKey toStr lat lon days) nasaData, Inr nasaData)"
proof -
  let ?c' = "fst (WeatherCache_get c now (weatherCacheKey toStr lat lon days))"
  obtain c'' where t: "fetchWeatherData_try ?c' later (weatherCacheKey toStr lat lon days) toStr net lat lon days
      = (c'', Inl err)"
    using primary by (cases "fetchWeatherData_try ?c' later (weatherCacheKey toStr lat lon days) toStr net lat lon days") simp
  then have "c'' = ?c'" by (rule fetchWeatherData_try_Inl_cache)
  with t secondary show ?thesis by (simp add: fetchWeatherData_miss [OF miss])
qed

text \<open>
  Claim C4.  When the cache has no live entry, the primary provider fails and the
  request for \<open>days\<close> days is answered from the secondary provider, the snapshot has
  both sections, each daily array has \<open>days\<close> elements and each hourly array has
  \<open>days * 24\<close>, and for every hour \<open>h\<close> of every day: the temperature is the mean of
  the day's max and min rounded to one decimal, the humidity is 50, the wind speed is
  the day's wind value of the response (0 when the response has none), the same for
  all 24 hours, and the precipitation is the day's total divided by 24 and rounded to
  three decimals.
\<close>

theorem fallback_snapshot_shape:
  assumes miss: "snd (WeatherCache_get c now (weatherCacheKey toStr lat lon days)) = None"
    and primary: "snd (fetchWeatherData_try (fst (WeatherCache_get c now (weatherCacheKey toStr lat lon days)))
             later (weatherCacheKey toStr lat lon days) toStr net lat lon days) = Inl err"
    and served: "snd (fetchWeatherData c now later toStr cal net lat lon days) = Inr snap"
  shows "\<exists>resp js hly dly.
       get_power net lat lon (formatYMD cal 0) (formatYMD cal (days - 1)) = Inr resp
     \<and> ok resp \<and> json resp = Inr js
     \<and> hourly snap = Some hly
     \<and> daily snap = Some dly
     \<and> length (time_daily dly) = days
     \<and> length (temperature_2m_max dly) = days
     \<and> length (temperature_2m_min dly) = days
     \<and> length (uv_index_max dly) = days
     \<and> length (precipitation_sum dly) = days
     \<and> length (time_hourly hly) = days * 24
     \<and> length (temperature_2m hly) = days * 24
     \<and> length (relative_humidity_2m hly) = days * 24
     \<and> length (wind_speed_10m hly) = days * 24
     \<and> length (precipitation_hourly hly) = days * 24
     \<and> (\<forall>day<days. \<forall>h<24.
           (\<forall>a b. temperature_2m_max dly ! day = Num a \<and> temperature_2m_min dly ! day = Num b \<longrightarrow>
              (\<exists>r. temperature_2m hly ! (day * 24 + h) = Num r \<and> rounded_to_decimals 1 ((a + b) / 2) r))
         \<and> relative_humidity_2m hly ! (day * 24 + h) = Num 50
         \<and> wind_speed_10m hly ! (day * 24 + h)
              = (case param_lookup (nasa_parameterObj js) ''WS2M'' (formatYMD cal day) of
                   None \<Rightarrow> Num 0 | Some v \<Rightarrow> v)
         \<and> (\<forall>p. precipitation_sum dly ! day = Num p \<longrightarrow>
              (\<exists>r. precipitation_hourly hly ! (day * 24 + h) = Num r \<and> rounded_to_decimals 3 (p / 24) r)))"
proof -
  from fetchWeatherData_fallback_served [OF miss primary served]
  have "fetchWeatherDataFromNASA toStr cal net lat lon days = Inr snap" .
  then obtain resp js where r: "get_power net lat lon (formatYMD cal 0) (formatYMD cal (days - 1)) = Inr resp"
      "ok resp" "json resp = Inr js"
    and snap: "snap = nasa_mapped (nasa_parameterObj js) cal lat lon days"
    using fetchWeatherDataFromNASA_Inr by blast
  from nasa_mapped_shape [of "nasa_parameterObj js" cal lat lon days] r show ?thesis
    unfolding snap by blast
qed

lemma rounded_to_decimals_unique:
  assumes "rounded_to_decimals n x r" and "\<bar>of_int k / 10 ^ n - x\<bar> < 1 / (2 * 10 ^ n)"
  shows "r = of_int k / 10 ^ n"
proof -
  from assms(1) obtain j :: int where j: "r = of_int j / 10 ^ n" and c: "\<bar>r - x\<bar> \<le> 1 / (2 * 10 ^ n)"
    by (auto simp: rounded_to_decimals_def)
  have "\<bar>of_int j / 10 ^ n - of_int k / 10 ^ n\<bar> < 1 / (2 * 10 ^ n) + 1 / (2 * 10 ^ n :: real)"
    using c assms(2) unfolding j by linarith
  then have "\<bar>(of_int j - of_int k) / 10 ^ n\<bar> < 1 / (10 ^ n :: real)"
    by (simp add: diff_divide_distrib)
  then have "\<bar>of_int j - of_int k :: real\<bar> < 1"
    by (simp add: abs_divide divide_less_cancel)
  then have "\<bar>j - k\<bar> < 1" by linarith
  then have "j = k" by simp
  with j show ?thesis by simp
qed


theorem fallback_snapshot_shape_witness:
  "snd (WeatherCache_get (weatherCache :: OpenMeteoResponse WeatherCache) 0
          (weatherCacheKey example_toStr 45 (- 75) 1)) = None
   \<and> snd (fetchWeatherData_try
            (fst (WeatherCache_get weatherCache 0 (weatherCacheKey example_toStr 45 (- 75) 1)))
            1 (weatherCacheKey example_toStr 45 (- 75) 1) example_toStr fallback_network 45 (- 75) 1)
        = Inl (Thrown ''TypeError: fetch failed'')
   \<and> snd (fetchWeatherData weatherCache 0 1 example_toStr example_calendar fallback_network 45 (- 75) 1)
        = Inr (nasa_mapped example_parameterObj example_calendar 45 (- 75) 1)
   \<and> (\<exists>hly dly. hourly (nasa_mapped example_parameterObj example_calendar 45 (- 75) 1) = Some hly
         \<and> daily (nasa_mapped example_parameterObj example_calendar 45 (- 75) 1) = Some dly
         \<and> temperature_2m_max dly = [Num (1004 / 100)] \<and> temperature_2m_min dly = [Num 5]
         \<and> uv_index_max dly = [Num 5] \<and> precipitation_sum dly = [Num 1]
         \<and> length (temperature_2m hly) = 24
         \<and> temperature_2m hly ! 5 = Num (75 / 10)
         \<and> relative_humidity_2m hly ! 5 = Num 50
         \<and> wind_speed_10m hly ! 5 = Num 12
         \<and> precipitation_hourly hly ! 5 = Num (42 / 1000))"
proof -
  let ?key = "weatherCacheKey example_toStr 45 (- 75) 1"
  let ?snap = "nasa_mapped example_parameterObj example_calendar 45 (- 75) 1"
  have m: "snd (WeatherCache_get (weatherCache :: OpenMeteoResponse WeatherCache) 0 ?key) = None"
    by (rule weatherCache_miss)
  have p: "snd (fetchWeatherData_try (fst (WeatherCache_get weatherCache 0 ?key))
            1 ?key example_toStr fallback_network 45 (- 75) 1) = Inl (Thrown ''TypeError: fetch failed'')"
    by (simp add: fetchWeatherData_try_def fallback_network_def)
  have n: "fetchWeatherDataFromNASA example_toStr example_calendar fallback_network 45 (- 75) 1 = Inr ?snap"
    by (simp add: fetchWeatherDataFromNASA_def fallback_network_def nasa_parameterObj_def)
  have s: "snd (fetchWeatherData weatherCache 0 1 example_toStr example_calendar fallback_network 45 (- 75) 1)
        = Inr ?snap"
    unfolding fetchWeatherData_fallback_result [OF m p n] by (rule snd_conv)
  from fallback_snapshot_shape [OF m p s]
  obtain resp js hly dly where
    g: "get_power fallback_network 45 (- 75) (formatYMD example_calendar 0)
          (formatYMD example_calendar (1 - 1)) = Inr resp" "ok resp" "json resp = Inr js"
    and h: "hourly ?snap = Some hly" and d: "daily ?snap = Some dly"
    and dlen: "length (time_daily dly) = 1" "length (temperature_2m_max dly) = 1"
      "length (temperature_2m_min dly) = 1" "length (uv_index_max dly) = 1"
      "length (precipitation_sum dly) = 1"
    and hlen: "length (time_hourly hly) = 1 * 24" "length (temperature_2m hly) = 1 * 24"
      "length (relative_humidity_2m hly) = 1 * 24" "length (wind_speed_10m hly) = 1 * 24"
      "length (precipitation_hourly hly) = 1 * 24"
    and pt: "\<forall>day<1. \<forall>h<24.
           (\<forall>a b. temperature_2m_max dly ! day = Num a \<and> temperature_2m_min dly ! day = Num b \<longrightarrow>
              (\<exists>r. temperature_2m hly ! (day * 24 + h) = Num r \<and> rounded_to_decimals 1 ((a + b) / 2) r))
         \<and> relative_humidity_2m hly ! (day * 24 + h) = Num 50
         \<and> wind_speed_10m hly ! (day * 24 + h)
              = (case param_lookup (nasa_parameterObj js) ''WS2M'' (formatYMD example_calendar day) of
                   None \<Rightarrow> Num 0 | Some v \<Rightarrow> v)
         \<and> (\<forall>p. precipitation_sum dly ! day = Num p \<longrightarrow>
              (\<exists>r. precipitation_hourly hly ! (day * 24 + h) = Num r \<and> rounded_to_decimals 3 (p / 24) r))"
    by (elim exE conjE) (rule that; assumption)
  note len = hlen(2)
  from g(1,3) have js: "nasa_parameterObj js = example_parameterObj"
    by (auto simp: fallback_network_def nasa_parameterObj_def)
  from d have dly: "temperature_2m_max dly = [Num (1004 / 100)]" "temperature_2m_min dly = [Num 5]"
      "uv_index_max dly = [Num 5]" "precipitation_sum dly = [Num 1]"
    by (auto simp: nasa_mapped_def Let_def nasa_tmax_def nasa_tmin_def nasa_uv_def nasa_pr_def
          param_lookup_def nullish_def example_parameterObj_def example_calendar_def)
  from pt [rule_format, of 0 5] have
    t: "\<forall>a b. temperature_2m_max dly ! 0 = Num a \<and> temperature_2m_min dly ! 0 = Num b \<longrightarrow>
              (\<exists>r. temperature_2m hly ! 5 = Num r \<and> rounded_to_decimals 1 ((a + b) / 2) r)"
    and hum: "relative_humidity_2m hly ! 5 = Num 50"
    and w: "wind_speed_10m hly ! 5
              = (case param_lookup (nasa_parameterObj js) ''WS2M'' (formatYMD example_calendar 0) of
                   None \<Rightarrow> Num 0 | Some v \<Rightarrow> v)"
    and pr: "\<forall>p. precipitation_sum dly ! 0 = Num p \<longrightarrow>
              (\<exists>r. precipitation_hourly hly ! 5 = Num r \<and> rounded_to_decimals 3 (p / 24) r)"
    by simp_all
  from t [rule_format, of "1004 / 100" 5] dly
  obtain r where r: "temperature_2m hly ! 5 = Num r" "rounded_to_decimals 1 ((1004 / 100 + 5) / 2) r"
    by auto
  from rounded_to_decimals_unique [OF r(2), of 75] have "r = 75 / 10" by simp
  with r have t5: "temperature_2m hly ! 5 = Num (75 / 10)" by simp
  from pr [rule_format, of 1] dly
  obtain q where q: "precipitation_hourly hly ! 5 = Num q" "rounded_to_decimals 3 (1 / 24) q"
    by auto
  from rounded_to_decimals_unique [OF q(2), of 42] have "q = 42 / 1000" by simp
  with q have p5: "precipitation_hourly hly ! 5 = Num (42 / 1000)" by simp
  from w have w5: "wind_speed_10m hly ! 5 = Num 12"
    by (simp add: js param_lookup_def example_parameterObj_def example_calendar_def)
  from m p s h d dly len t5 hum w5 p5 show ?thesis by simp
qed

section \<open>Properties of the batch evaluator\<close>

lemma push_high_risk_fields:
  "heat (push_high_risk hr n d) = heat hr @ (if hsi d \<ge> 70 then [n] else [])"
  "cold (push_high_risk hr n d) = cold hr @ (if csi d \<ge> 60 then [n] else [])"
  "air_quality (push_high_risk hr n d) = air_quality hr @ (if aqri d \<ge> 65 then [n] else [])"
  by (simp_all add: push_high_risk_def thresholds_def Let_def)

lemma read_feature_readable:
  assumes "readable f"
  shows "\<exists>r. read_feature f = Inr r"
  using assms
  by (auto simp add: readable_def read_feature_def getCentroid_def
      split: option.splits if_splits prod.splits)

lemma read_feature_unreadable:
  assumes "\<not> readable f"
  shows "\<exists>e. read_feature f = Inl e"
  using assms
  by (auto simp add: readable_def read_feature_def getCentroid_def
      split: option.splits if_splits prod.splits)

lemma region_loop_outcomes:
  assumes "list_all readable features"
  shows "snd (region_loop svc s hr features) =
      Inr \<lparr>heat = heat hr @ affected hsi 70 (region_outcomes svc s features),
           cold = cold hr @ affected csi 60 (region_outcomes svc s features),
           air_quality = air_quality hr @ affected aqri 65 (region_outcomes svc s features)\<rparr>"
  using assms
proof (induction features arbitrary: s hr)
  case Nil
  show ?case by (simp add: affected_def)
next
  case (Cons f fs)
  from Cons.prems have rf: "readable f" and rfs: "list_all readable fs" by simp_all
  from rf obtain r where r: "read_feature f = Inr r" using read_feature_readable by blast
  show ?case
  proof (cases r)
    case None
    with r Cons.IH [OF rfs, of s hr] show ?thesis by simp
  next
    case (Some t)
    obtain lon lat name where t: "t = (lon, lat, name)" by (cases t)
    obtain s' q where p: "processRegion svc s lat lon = (s', q)"
      by (cases "processRegion svc s lat lon")
    show ?thesis
    proof (cases q)
      case (Inl e)
      with r Some t p Cons.IH [OF rfs, of s' hr] show ?thesis by (simp add: affected_def)
    next
      case (Inr d)
      with r Some t p Cons.IH [OF rfs, of s' "push_high_risk hr name d"] show ?thesis
        by (simp add: affected_def push_high_risk_fields)
    qed
  qed
qed

lemma region_loop_unreadable:
  assumes "\<not> list_all readable features"
  shows "\<exists>e. snd (region_loop svc s hr features) = Inl e"
  using assms
proof (induction features arbitrary: s hr)
  case Nil
  then show ?case by simp
next
  case (Cons f fs)
  show ?case
  proof (cases "readable f")
    case False
    then obtain e where "read_feature f = Inl e" using read_feature_unreadable by blast
    then show ?thesis by simp
  next
    case True
    with Cons.prems have rfs: "\<not> list_all readable fs" by simp
    from True obtain r where r: "read_feature f = Inr r" using read_feature_readable by blast
    show ?thesis
    proof (cases r)
      case None
      with r Cons.IH [OF rfs, of s hr] show ?thesis by simp
    next
      case (Some t)
      obtain lon lat name where t: "t = (lon, lat, name)" by (cases t)
      obtain s' q where p: "processRegion svc s lat lon = (s', q)"
        by (cases "processRegion svc s lat lon")
      show ?thesis
      proof (cases q)
        case (Inl e)
        with r Some t p Cons.IH [OF rfs, of s' hr] show ?thesis by simp
      next
        case (Inr d)
        with r Some t p Cons.IH [OF rfs, of s' "push_high_risk hr name d"] show ?thesis by simp
      qed
    qed
  qed
qed


lemma read_feature_region_at:
  "read_feature (region_at name lat) = Inr (Some (Num 0, Num lat, name))"
  by (simp add: read_feature_def region_at_def getCentroid_def centroid_step_def coord_at_def
      js_index_def)


lemma readable_region_at: "readable (region_at name lat)"
  by (simp add: readable_def region_at_def)

lemma processRegion_toy:
  "processRegion toy_services () (Num lat) (Num 0) =
     ((), if lat = 0 then Inl (Thrown ''TypeError: fetch failed'')
          else Inr \<lparr>hsi = lat, csi = 0, aqri = 0, riskScore = 0\<rparr>)"
  by (simp add: processRegion_def toy_services_def processWeatherForRisk_def Let_def js_index_def)

lemma region_outcomes_toy:
  "region_outcomes toy_services () (region_at name lat # fs) =
     (name, if lat = 0 then Inl (Thrown ''TypeError: fetch failed'')
            else Inr \<lparr>hsi = lat, csi = 0, aqri = 0, riskScore = 0\<rparr>)
     # region_outcomes toy_services () fs"
  by (simp add: read_feature_region_at processRegion_toy)



lemma alerts_of_candidates:
  "map (\<lambda>a. (alert_type a, severity a, neighborhoods a)) (alerts_of toStr hr)
     = candidate ''heat'' (heat hr) @ candidate ''cold'' (cold hr)
       @ candidate ''air_quality'' (air_quality hr)"
  by (simp add: alerts_of_def candidate_def severity_of_def)

lemma calculateDailyRisks_snd:
  assumes "list_all readable features"
  shows "snd (calculateDailyRisks toStr svc s features)
     = alerts_of toStr
         \<lparr>heat = affected hsi 70 (region_outcomes svc s features),
          cold = affected csi 60 (region_outcomes svc s features),
          air_quality = affected aqri 65 (region_outcomes svc s features)\<rparr>"
proof -
  obtain s' r where l: "region_loop svc s \<lparr>heat = [], cold = [], air_quality = []\<rparr> features = (s', r)"
    by (cases "region_loop svc s \<lparr>heat = [], cold = [], air_quality = []\<rparr> features")
  from region_loop_outcomes [OF assms, of svc s "\<lparr>heat = [], cold = [], air_quality = []\<rparr>"] l
  have "r = Inr \<lparr>heat = affected hsi 70 (region_outcomes svc s features),
          cold = affected csi 60 (region_outcomes svc s features),
          air_quality = affected aqri 65 (region_outcomes svc s features)\<rparr>"
    by simp
  with l show ?thesis by (simp add: calculateDailyRisks_def)
qed

lemma calculateDailyRisks_aborted:
  assumes "\<not> list_all readable features"
  shows "snd (calculateDailyRisks toStr svc s features) = []"
proof -
  obtain s' r where l: "region_loop svc s \<lparr>heat = [], cold = [], air_quality = []\<rparr> features = (s', r)"
    by (cases "region_loop svc s \<lparr>heat = [], cold = [], air_quality = []\<rparr> features")
  from region_loop_unreadable [OF assms, of svc s "\<lparr>heat = [], cold = [], air_quality = []\<rparr>"] l
  obtain e where "r = Inl e" by auto
  with l show ?thesis by (simp add: calculateDailyRisks_def)
qed

lemma calculateDailyRisks_bounds:
  "length (snd (calculateDailyRisks toStr svc s features)) \<le> 3
   \<and> distinct (map alert_type (snd (calculateDailyRisks toStr svc s features)))"
  by (simp add: calculateDailyRisks_def alerts_of_def split: prod.splits sum.splits)

text \<open>
  Claim C1.  In one run, after all regions are processed (every feature of the store can
  be read, so the run reaches the decision), for each of the three indices independently,
  the names of the regions whose sub-index met or exceeded the threshold of the index
  (70 for the heat index, 60 for the cold index, 65 for the air-quality index) are
  collected in the order of the regions; an index with no such region gives no alert,
  and an index with some gives exactly one alert with these names, of severity
  ``extreme'' when there are three or more and ``high'' otherwise.  A run that does not
  get that far gives no alert.  So every run gives at most three alerts, of different
  kinds.  With three regions of heat index 72, 50 and 90 the heat alert names the first
  and the third and has severity ``high''.
\<close>

theorem calculateDailyRisks_one_alert_per_index:
  "(list_all readable features \<longrightarrow>
      map (\<lambda>a. (alert_type a, severity a, neighborhoods a)) (snd (calculateDailyRisks toStr svc s features))
       = candidate ''heat'' (affected hsi (threshold_hsi thresholds) (region_outcomes svc s features))
         @ candidate ''cold'' (affected csi (threshold_csi thresholds) (region_outcomes svc s features))
         @ candidate ''air_quality'' (affected aqri (threshold_aqri thresholds) (region_outcomes svc s features)))
   \<and> (\<not> list_all readable features \<longrightarrow> snd (calculateDailyRisks toStr svc s features) = [])
   \<and> length (snd (calculateDailyRisks toStr svc s features)) \<le> 3
   \<and> distinct (map alert_type (snd (calculateDailyRisks toStr svc s features)))
   \<and> thresholds = \<lparr>threshold_hsi = 70, threshold_csi = 60, threshold_aqri = 65\<rparr>
   \<and> (\<forall>n1 n2 n3 r1 r2 r3.
         list_all readable features
         \<and> region_outcomes svc s features = [(n1, Inr r1), (n2, Inr r2), (n3, Inr r3)]
         \<and> hsi r1 = 72 \<and> hsi r2 = 50 \<and> hsi r3 = 90 \<longrightarrow>
         (\<exists>msg rest. snd (calculateDailyRisks toStr svc s features)
            = \<lparr>alert_type = ''heat'', severity = ''high'', neighborhoods = [n1, n3], message = msg\<rparr> # rest
            \<and> ''heat'' \<notin> set (map alert_type rest)))"
proof (intro conjI allI impI)
  assume "list_all readable features"
  then show "map (\<lambda>a. (alert_type a, severity a, neighborhoods a)) (snd (calculateDailyRisks toStr svc s features))
     = candidate ''heat'' (affected hsi (threshold_hsi thresholds) (region_outcomes svc s features))
       @ candidate ''cold'' (affected csi (threshold_csi thresholds) (region_outcomes svc s features))
       @ candidate ''air_quality'' (affected aqri (threshold_aqri thresholds) (region_outcomes svc s features))"
    by (simp add: calculateDailyRisks_snd alerts_of_candidates thresholds_def)
next
  assume "\<not> list_all readable features"
  then show "snd (calculateDailyRisks toStr svc s features) = []"
    by (rule calculateDailyRisks_aborted)
next
  show "length (snd (calculateDailyRisks toStr svc s features)) \<le> 3"
    using calculateDailyRisks_bounds [of toStr svc s features] by (rule conjunct1)
next
  show "distinct (map alert_type (snd (calculateDailyRisks toStr svc s features)))"
    using calculateDailyRisks_bounds [of toStr svc s features] by (rule conjunct2)
next
  show "thresholds = \<lparr>threshold_hsi = 70, threshold_csi = 60, threshold_aqri = 65\<rparr>"
    by (simp add: thresholds_def)
next
  fix n1 n2 n3 r1 r2 r3
  assume a: "list_all readable features
         \<and> region_outcomes svc s features = [(n1, Inr r1), (n2, Inr r2), (n3, Inr r3)]
         \<and> hsi r1 = 72 \<and> hsi r2 = 50 \<and> hsi r3 = 90"
  then have rd: "list_all readable features" by (rule conjunct1)
  from a have h: "affected hsi 70 (region_outcomes svc s features) = [n1, n3]"
    by (simp add: affected_def)
  let ?alerts = "snd (calculateDailyRisks toStr svc s features)"
  obtain msg rest where hd: "?alerts
      = \<lparr>alert_type = ''heat'', severity = ''high'', neighborhoods = [n1, n3], message = msg\<rparr> # rest"
    unfolding calculateDailyRisks_snd [OF rd] h by (simp add: alerts_of_def severity_of_def)
  have "distinct (map alert_type ?alerts)"
    using calculateDailyRisks_bounds [of toStr svc s features] by (rule conjunct2)
  then have "''heat'' \<notin> set (map alert_type rest)" unfolding hd by simp
  with hd show "\<exists>msg rest. ?alerts
            = \<lparr>alert_type = ''heat'', severity = ''high'', neighborhoods = [n1, n3], message = msg\<rparr> # rest
            \<and> ''heat'' \<notin> set (map alert_type rest)"
    by blast
qed

theorem calculateDailyRisks_one_alert_per_index_witness:
  "list_all readable [region_at ''Downtown'' 72, region_at ''Riverside'' 50, region_at ''Hilltop'' 90]
   \<and> region_outcomes toy_services ()
       [region_at ''Downtown'' 72, region_at ''Riverside'' 50, region_at ''Hilltop'' 90]
     = [(''Downtown'', Inr \<lparr>hsi = 72, csi = 0, aqri = 0, riskScore = 0\<rparr>),
        (''Riverside'', Inr \<lparr>hsi = 50, csi = 0, aqri = 0, riskScore = 0\<rparr>),
        (''Hilltop'', Inr \<lparr>hsi = 90, csi = 0, aqri = 0, riskScore = 0\<rparr>)]
   \<and> hsi \<lparr>hsi = 72, csi = 0, aqri = 0, riskScore = 0\<rparr> = 72
   \<and> hsi \<lparr>hsi = 50, csi = 0, aqri = 0, riskScore = 0\<rparr> = 50
   \<and> hsi \<lparr>hsi = 90, csi = 0, aqri = 0, riskScore = 0\<rparr> = 90
   \<and> map (\<lambda>a. (alert_type a, severity a, neighborhoods a))
         (snd (calculateDailyRisks example_toStr toy_services ()
                 [region_at ''Downtown'' 72, region_at ''Riverside'' 50, region_at ''Hilltop'' 90]))
       = [(''heat'', ''high'', [''Downtown'', ''Hilltop''])]
   \<and> (\<exists>msg. snd (calculateDailyRisks example_toStr toy_services ()
                 [region_at ''Downtown'' 72, region_at ''Riverside'' 50, region_at ''Hilltop'' 90])
          = [\<lparr>alert_type = ''heat'', severity = ''high'', neighborhoods = [''Downtown'', ''Hilltop''],
              message = msg\<rparr>])"
proof -
  let ?fs = "[region_at ''Downtown'' 72, region_at ''Riverside'' 50, region_at ''Hilltop'' 90]"
  let ?alerts = "snd (calculateDailyRisks example_toStr toy_services () ?fs)"
  have rd: "list_all readable ?fs" by (simp add: readable_region_at)
  have o: "region_outcomes toy_services () ?fs
     = [(''Downtown'', Inr \<lparr>hsi = 72, csi = 0, aqri = 0, riskScore = 0\<rparr>),
        (''Riverside'', Inr \<lparr>hsi = 50, csi = 0, aqri = 0, riskScore = 0\<rparr>),
        (''Hilltop'', Inr \<lparr>hsi = 90, csi = 0, aqri = 0, riskScore = 0\<rparr>)]"
    by (simp add: region_outcomes_toy del: region_outcomes.simps(2))
  note inst = calculateDailyRisks_one_alert_per_index [of ?fs example_toStr toy_services "()"]
  from rd have "map (\<lambda>a. (alert_type a, severity a, neighborhoods a)) ?alerts
     = candidate ''heat'' (affected hsi (threshold_hsi thresholds) (region_outcomes toy_services () ?fs))
       @ candidate ''cold'' (affected csi (threshold_csi thresholds) (region_outcomes toy_services () ?fs))
       @ candidate ''air_quality'' (affected aqri (threshold_aqri thresholds) (region_outcomes toy_services () ?fs))"
    by (rule inst [THEN conjunct1, rule_format])
  then have m: "map (\<lambda>a. (alert_type a, severity a, neighborhoods a)) ?alerts
       = [(''heat'', ''high'', [''Downtown'', ''Hilltop''])]"
    unfolding o by (simp add: affected_def candidate_def thresholds_def)
  note ex = inst [THEN conjunct2, THEN conjunct2, THEN conjunct2, THEN conjunct2, THEN conjunct2,
      rule_format,
      of "''Downtown''" "\<lparr>hsi = 72, csi = 0, aqri = 0, riskScore = 0\<rparr>"
         "''Riverside''" "\<lparr>hsi = 50, csi = 0, aqri = 0, riskScore = 0\<rparr>"
         "''Hilltop''" "\<lparr>hsi = 90, csi = 0, aqri = 0, riskScore = 0\<rparr>"]
  have "\<exists>msg rest. ?alerts
            = \<lparr>alert_type = ''heat'', severity = ''high'', neighborhoods = [''Downtown'', ''Hilltop''],
               message = msg\<rparr> # rest
            \<and> ''heat'' \<notin> set (map alert_type rest)"
    by (rule ex) (simp add: o readable_region_at del: region_outcomes.simps(2))
  then obtain msg rest where a: "?alerts
            = \<lparr>alert_type = ''heat'', severity = ''high'', neighborhoods = [''Downtown'', ''Hilltop''],
               message = msg\<rparr> # rest"
    by blast
  from m have "length (map (\<lambda>a. (alert_type a, severity a, neighborhoods a)) ?alerts) = 1"
    by (simp only: list.size One_nat_def add_0)
  then have "length ?alerts = 1" by (simp only: length_map)
  with a have "rest = []" by simp
  with a have e: "\<exists>msg. ?alerts
          = [\<lparr>alert_type = ''heat'', severity = ''high'', neighborhoods = [''Downtown'', ''Hilltop''],
              message = msg\<rparr>]"
    by blast
  have h: "hsi \<lparr>hsi = 72, csi = 0, aqri = 0, riskScore = 0\<rparr> = 72"
    "hsi \<lparr>hsi = 50, csi = 0, aqri = 0, riskScore = 0\<rparr> = 50"
    "hsi \<lparr>hsi = 90, csi = 0, aqri = 0, riskScore = 0\<rparr> = 90"
    by simp_all
  show ?thesis by (intro conjI rd o m e h)
qed




end
